theory Spec2Isabelle
  imports Main "HOL-Library.Word"
begin

unbundle bit_operations_syntax

section \<open>Key agreement of the TLS library (tls/key_agreement.go)\<close>

text \<open>
  The theory embeds the key-agreement operations of \<^verbatim>\<open>tls/key_agreement.go\<close>:
  the RSA, DHE and ECDHE variants of \<^verbatim>\<open>processClientKeyExchange\<close>,
  \<^verbatim>\<open>processServerKeyExchange\<close>, \<^verbatim>\<open>generateClientKeyExchange\<close>, the curve selection of
  \<^verbatim>\<open>generateServerKeyExchange\<close>, \<^verbatim>\<open>pickTLS12HashForSignature\<close> and \<^verbatim>\<open>curveForCurveID\<close>.

  Go values are modelled as follows. A \<^verbatim>\<open>[]byte\<close> is a list of 8-bit words, a \<^verbatim>\<open>*big.Int\<close> is
  an \<open>int option\<close> (\<open>None\<close> is the nil pointer), a pair \<^verbatim>\<open>(value, error)\<close> is a sum
  \<open>error + value\<close>, and a method that mutates its receiver returns the receiver next to
  its result, also when it fails. Functions of the Go standard library and the curve
  implementations of package \<^verbatim>\<open>ecdh\<close>, which are not part of the file, are arguments of the
  operations that call them.
\<close>

subsection \<open>Bytes, errors, readers\<close>

type_synonym byte = "8 word"
type_synonym bytes = "byte list"

text \<open>
  The error values of the file. \<open>errorsNew s\<close> is \<^verbatim>\<open>errors.New(s)\<close>; \<open>EOF\<close> and
  \<open>ErrUnexpectedEOF\<close> are the two errors of \<^verbatim>\<open>io.ReadFull\<close>; \<open>libError s\<close> is an error
  produced inside a library primitive; \<open>Panic s\<close> is a run-time panic, which is not an
  error return but ends the call all the same.
\<close>

datatype error =
    errClientKeyExchange
  | errServerKeyExchange
  | errUnexpectedServerKeyExchange
  | errorsNew string
  | EOF
  | ErrUnexpectedEOF
  | libError string
  | Panic string

text \<open>
  An \<^verbatim>\<open>io.Reader\<close> is the list of the bytes it still yields. \<^verbatim>\<open>io.ReadFull(r, buf)\<close> with
  \<open>n = len(buf)\<close> fills the buffer or fails: with \<open>EOF\<close> when no byte was read, with
  \<open>ErrUnexpectedEOF\<close> when some but not all were.
\<close>

type_synonym reader = "byte list"

definition ReadFull :: "reader \<Rightarrow> nat \<Rightarrow> error + (bytes \<times> reader)" where
  "ReadFull r n =
     (if n \<le> length r then Inr (take n r, drop n r)
      else if r = [] then Inl EOF
      else Inl ErrUnexpectedEOF)"

text \<open>\<^verbatim>\<open>int(a)<<8 | int(b)\<close>, the 16-bit big-endian length read by every parser.\<close>

definition be16 :: "byte \<Rightarrow> byte \<Rightarrow> nat" where
  "be16 a b = push_bit 8 (unat a) OR unat b"

text \<open>\<^verbatim>\<open>byte(n >> 8), byte(n)\<close>, the two length bytes written by every serializer.\<close>

definition put16 :: "nat \<Rightarrow> bytes" where
  "put16 n = [of_nat (drop_bit 8 n), of_nat n]"

text \<open>The builtin \<^verbatim>\<open>copy(dst, src)\<close>: the first \<open>min (len dst) (len src)\<close> bytes are overwritten.\<close>

definition copy :: "bytes \<Rightarrow> bytes \<Rightarrow> bytes" where
  "copy dst src = take (length dst) (src @ drop (length src) dst)"

subsection \<open>Big integers (math/big)\<close>

text \<open>
  \<^verbatim>\<open>SetBytes\<close> reads a big-endian unsigned integer; \<^verbatim>\<open>Bytes\<close> writes the absolute value
  in big-endian order with no leading zero byte, so zero is the empty slice.
\<close>

definition SetBytes :: "bytes \<Rightarrow> int" where
  "SetBytes bs = foldl (\<lambda>acc b. acc * 256 + uint b) 0 bs"

function natBytes :: "nat \<Rightarrow> bytes" where
  "natBytes n = (if n = 0 then [] else natBytes (n div 256) @ [of_nat (n mod 256)])"
  by pat_completeness auto
termination
  by (relation "measure id") auto

declare natBytes.simps [simp del]

definition Bytes :: "int \<Rightarrow> bytes" where
  "Bytes x = natBytes (nat \<bar>x\<bar>)"

text \<open>
  \<^verbatim>\<open>z.Exp(x, y, m)\<close>: \<open>x ^ y mod |m|\<close>; with \<open>m = 0\<close> the power itself, and 1 when \<open>y \<le> 0\<close>.
  For \<open>y < 0\<close> and \<open>m \<noteq> 0\<close> the inverse of \<open>x\<close> modulo \<open>|m|\<close> is raised to \<open>|y|\<close>, and the
  result is nil when \<open>x\<close> has no inverse.
\<close>

definition Exp :: "int \<Rightarrow> int \<Rightarrow> int \<Rightarrow> int option" where
  "Exp x y m =
     (if m = 0 then Some (if y \<le> 0 then 1 else x ^ nat y)
      else if 0 \<le> y then Some (x ^ nat y mod \<bar>m\<bar>)
      else (case find (\<lambda>i. (x * i) mod \<bar>m\<bar> = 1 mod \<bar>m\<bar>) [0 .. \<bar>m\<bar> - 1] of
              None \<Rightarrow> None
            | Some i \<Rightarrow> Some (i ^ nat (- y) mod \<bar>m\<bar>)))"

subsection \<open>Constants declared in tls/common.go\<close>

text \<open>
  Modelled from the spec: the version, hash and signature constants are declared in
  \<^verbatim>\<open>tls/common.go\<close>, which is not among the sources; the specification gives
  \<^verbatim>\<open>VersionSSL30=0x0300\<close>, \<^verbatim>\<open>VersionTLS12=0x0303\<close>, hash ids MD5=1 .. SHA512=6 and
  signature ids RSA=1, DSA=2, ECDSA=3.
\<close>

definition VersionSSL30 :: "16 word" where "VersionSSL30 = 0x0300"
definition VersionTLS12 :: "16 word" where "VersionTLS12 = 0x0303"

definition hashMD5 :: byte where "hashMD5 = 1"
definition hashSHA1 :: byte where "hashSHA1 = 2"
definition hashSHA224 :: byte where "hashSHA224 = 3"
definition hashSHA256 :: byte where "hashSHA256 = 4"
definition hashSHA384 :: byte where "hashSHA384 = 5"
definition hashSHA512 :: byte where "hashSHA512 = 6"

definition signatureRSA :: byte where "signatureRSA = 1"
definition signatureDSA :: byte where "signatureDSA = 2"
definition signatureECDSA :: byte where "signatureECDSA = 3"

record signatureAndHash =
  hash :: byte
  signature :: byte

text \<open>
  Modelled from the spec: \<^verbatim>\<open>isSupportedSignatureAndHash\<close> is declared outside the
  sources; the specification reads it as "the \<open>(sig, hash)\<close> pair is present in the list".
\<close>

fun isSupportedSignatureAndHash :: "signatureAndHash \<Rightarrow> signatureAndHash list \<Rightarrow> bool" where
  "isSupportedSignatureAndHash sigHash [] = False"
| "isSupportedSignatureAndHash sigHash (s # sigHashes) =
     (if s = sigHash then True else isSupportedSignatureAndHash sigHash sigHashes)"

subsection \<open>pickTLS12HashForSignature\<close>

definition errNoCommonHash :: error where
  "errNoCommonHash = errorsNew ''tls: client doesn't support any common hash functions''"

fun pickLoop :: "byte \<Rightarrow> signatureAndHash list \<Rightarrow> signatureAndHash list \<Rightarrow> error + byte" where
  "pickLoop sigType [] serverList = Inl errNoCommonHash"
| "pickLoop sigType (sigAndHash # clientList) serverList =
     (if signature sigAndHash \<noteq> sigType then pickLoop sigType clientList serverList
      else if isSupportedSignatureAndHash sigAndHash serverList then Inr (hash sigAndHash)
      else pickLoop sigType clientList serverList)"

definition pickTLS12HashForSignature ::
  "byte \<Rightarrow> signatureAndHash list \<Rightarrow> signatureAndHash list \<Rightarrow> error + byte" where
  "pickTLS12HashForSignature sigType clientList serverList =
     (if length clientList = 0 then Inr hashSHA1
      else pickLoop sigType clientList serverList)"

subsection \<open>Messages, configuration, certificates\<close>

text \<open>
  Only the fields the operations read or write are kept. \<open>rand\<close> is the reader
  \<^verbatim>\<open>config.rand()\<close> returns and \<open>curvePreferences\<close> the list \<^verbatim>\<open>config.curvePreferences()\<close>
  returns; both methods are declared in \<^verbatim>\<open>tls/common.go\<close>. The field \<^verbatim>\<open>random\<close> of the
  server hello is named \<open>serverRandom\<close>.
\<close>

type_synonym CurveID = "16 word"

record rsaPublicKey =
  N :: int
  E :: int

record rsaPrivateKey = rsaPublicKey +
  D :: int

datatype cryptoPrivateKey = rsa_PrivateKey rsaPrivateKey | ecdsa_PrivateKey int

datatype cryptoPublicKey = rsa_PublicKey rsaPublicKey | ecdsa_PublicKey int int | dsa_PublicKey int

record Certificate =
  PrivateKey :: cryptoPrivateKey

record x509Certificate =
  PublicKey :: cryptoPublicKey

record Config =
  rand :: reader
  KexConfig :: string
  InsecureSkipVerify :: bool
  curvePreferences :: "CurveID list"

record clientHelloMsg =
  vers :: "16 word"
  random :: bytes
  supportedCurves :: "CurveID list"
  signatureAndHashes :: "signatureAndHash list"

record serverHelloMsg =
  serverRandom :: bytes

record clientKeyExchangeMsg =
  ciphertext :: bytes

record serverKeyExchangeMsg =
  key :: bytes
  digest :: bytes

text \<open>
  The method \<^verbatim>\<open>verifyParameters\<close> of the interface \<^verbatim>\<open>keyAgreementAuthentication\<close>, bound to
  its receiver \<^verbatim>\<open>ka.auth\<close>: it returns the digest and the verification error.
  \<^verbatim>\<open>signParameters\<close> returns the message or an error.
\<close>

type_synonym verifyParameters =
  "Config \<Rightarrow> clientHelloMsg \<Rightarrow> serverHelloMsg \<Rightarrow> x509Certificate \<Rightarrow> bytes \<Rightarrow> bytes
     \<Rightarrow> bytes \<times> error option"

type_synonym signParameters =
  "Config \<Rightarrow> Certificate \<Rightarrow> clientHelloMsg \<Rightarrow> serverHelloMsg \<Rightarrow> bytes
     \<Rightarrow> error + serverKeyExchangeMsg"

text \<open>\<^verbatim>\<open>nilKeyAgreementAuthentication.verifyParameters\<close> returns \<^verbatim>\<open>nil, nil\<close>.\<close>

definition nilKeyAgreementAuthentication_verifyParameters :: verifyParameters where
  "nilKeyAgreementAuthentication_verifyParameters config clientHello serverHello cert params sig =
     ([], None)"

definition nilKeyAgreementAuthentication_signParameters :: signParameters where
  "nilKeyAgreementAuthentication_signParameters config cert clientHello hello params =
     Inr \<lparr>key = params, digest = []\<rparr>"

subsection \<open>rsaKeyAgreement\<close>

record rsaKeyAgreement =
  version :: "16 word"
  clientVersion :: "16 word"
  ephemeral :: bool
  privateKey :: "rsaPrivateKey option"
  publicKey :: "rsaPublicKey option"
  verifyError :: "error option"

text \<open>
  The parameters that \<^verbatim>\<open>generateServerKeyExchange\<close> serialises in ephemeral mode: the
  modulus and the exponent, each after its 16-bit length.
\<close>

definition serverRSAParams :: "bytes \<Rightarrow> bytes \<Rightarrow> bytes" where
  "serverRSAParams modulus exponent =
     put16 (length modulus) @ modulus @ put16 (length exponent) @ exponent"

text \<open>
  \<^verbatim>\<open>rsa.DecryptPKCS1v15SessionKey(rand, key, ciphertext, preMasterSecret)\<close> returns an error
  or writes into the buffer it is given; the argument of the model returns the error or the
  bytes the primitive copies into the buffer, none when it leaves the buffer as it is.
  The operation does not modify its receiver.
\<close>

definition rsaKeyAgreement_processClientKeyExchange ::
  "(reader \<Rightarrow> rsaPrivateKey \<Rightarrow> bytes \<Rightarrow> bytes \<Rightarrow> error + bytes)
     \<Rightarrow> rsaKeyAgreement \<Rightarrow> Config \<Rightarrow> Certificate \<Rightarrow> clientKeyExchangeMsg \<Rightarrow> error + bytes" where
  "rsaKeyAgreement_processClientKeyExchange DecryptPKCS1v15SessionKey ka config cert ckx =
     (case ReadFull (rand config) 46 of
        Inl err \<Rightarrow> Inl err
      | Inr (rnd, r) \<Rightarrow>
          (let preMasterSecret = [0, 0] @ rnd in
           if length (ciphertext ckx) < 2 then Inl errClientKeyExchange
           else if version ka \<noteq> VersionSSL30
                   \<and> be16 (ciphertext ckx ! 0) (ciphertext ckx ! 1) \<noteq> length (ciphertext ckx) - 2
           then Inl errClientKeyExchange
           else
             (let ciphertext' =
                    (if version ka \<noteq> VersionSSL30 then drop 2 (ciphertext ckx)
                     else ciphertext ckx)
              in case (case rsaKeyAgreement.privateKey ka of
                         Some k \<Rightarrow> Inr k
                       | None \<Rightarrow>
                           (case PrivateKey cert of
                              rsa_PrivateKey k \<Rightarrow> Inr k
                            | ecdsa_PrivateKey _ \<Rightarrow> Inl (Panic ''interface conversion''))) of
                   Inl e \<Rightarrow> Inl e
                 | Inr k \<Rightarrow>
                     (case DecryptPKCS1v15SessionKey r k ciphertext' preMasterSecret of
                        Inl err \<Rightarrow> Inl err
                      | Inr m \<Rightarrow> Inr (copy preMasterSecret m)))))"

definition rsaKeyAgreement_processServerKeyExchange ::
  "verifyParameters \<Rightarrow> rsaKeyAgreement \<Rightarrow> Config \<Rightarrow> clientHelloMsg \<Rightarrow> serverHelloMsg
     \<Rightarrow> x509Certificate \<Rightarrow> serverKeyExchangeMsg
     \<Rightarrow> error option \<times> rsaKeyAgreement \<times> serverKeyExchangeMsg" where
  "rsaKeyAgreement_processServerKeyExchange verifyParameters ka config clientHello serverHello cert skx =
     (if \<not> ephemeral ka then (None, ka, skx)
      else
        (let k = key skx in
         if length k < 2 then (Some errServerKeyExchange, ka, skx)
         else
           (let modulusLen = be16 (k ! 0) (k ! 1); k = drop 2 k in
            if length k < modulusLen then (Some errServerKeyExchange, ka, skx)
            else
              (let modulus = SetBytes (take modulusLen k); k = drop modulusLen k in
               if length k < 2 then (Some errServerKeyExchange, ka, skx)
               else
                 (let exponentLength = be16 (k ! 0) (k ! 1); k = drop 2 k in
                  if length k < exponentLength \<or> exponentLength > 4
                  then (Some errServerKeyExchange, ka, skx)
                  else
                    (let rawExponent = take exponentLength k;
                         exponent = foldl (\<lambda>e b. push_bit 8 e OR uint b) 0 rawExponent;
                         ka = ka\<lparr>rsaKeyAgreement.publicKey := Some \<lparr>N = modulus, E = exponent\<rparr>\<rparr>;
                         paramsLen = 2 + exponentLength + 2 + modulusLen;
                         serverRSAParams = take paramsLen (key skx);
                         sig = drop paramsLen (key skx);
                         (dg, verr) =
                           verifyParameters config clientHello serverHello cert serverRSAParams sig;
                         skx = skx\<lparr>digest := dg\<rparr>;
                         ka = ka\<lparr>rsaKeyAgreement.verifyError := verr\<rparr>
                     in if InsecureSkipVerify config then (None, ka, skx)
                        else (rsaKeyAgreement.verifyError ka, ka, skx)))))))"

text \<open>
  \<^verbatim>\<open>rsa.EncryptPKCS1v15(rand, publicKey, preMasterSecret)\<close> is an argument. The operation
  does not modify its receiver.
\<close>

definition rsaKeyAgreement_generateClientKeyExchange ::
  "(reader \<Rightarrow> rsaPublicKey \<Rightarrow> bytes \<Rightarrow> error + bytes)
     \<Rightarrow> rsaKeyAgreement \<Rightarrow> Config \<Rightarrow> clientHelloMsg \<Rightarrow> x509Certificate
     \<Rightarrow> error + (bytes \<times> clientKeyExchangeMsg)" where
  "rsaKeyAgreement_generateClientKeyExchange EncryptPKCS1v15 ka config clientHello cert =
     (let preMasterSecret = replicate 48 0;
          preMasterSecret = preMasterSecret[0 := ucast (drop_bit 8 (vers clientHello))];
          preMasterSecret = preMasterSecret[1 := ucast (vers clientHello)]
      in case ReadFull (rand config) 46 of
           Inl err \<Rightarrow> Inl err
         | Inr (rnd, r) \<Rightarrow>
             (let preMasterSecret = take 2 preMasterSecret @ rnd in
              case (case rsaKeyAgreement.publicKey ka of
                      Some k \<Rightarrow> Inr k
                    | None \<Rightarrow>
                        (case PublicKey cert of
                           rsa_PublicKey k \<Rightarrow> Inr k
                         | _ \<Rightarrow> Inl errClientKeyExchange)) of
                Inl e \<Rightarrow> Inl e
              | Inr pk \<Rightarrow>
                  (case EncryptPKCS1v15 r pk preMasterSecret of
                     Inl err \<Rightarrow> Inl err
                   | Inr encrypted \<Rightarrow>
                       Inr (preMasterSecret,
                            \<lparr>ciphertext =
                               (if version ka \<noteq> VersionSSL30
                                then put16 (length encrypted) @ encrypted
                                else encrypted)\<rparr>))))"

subsection \<open>dheKeyAgreement\<close>

record dheKeyAgreement =
  p :: "int option"
  g :: "int option"
  yTheirs :: "int option"
  yOurs :: "int option"
  xOurs :: "int option"
  yServer :: "int option"
  yClient :: "int option"
  verifyError :: "error option"

definition nilDeref :: error where
  "nilDeref = Panic ''invalid memory address or nil pointer dereference''"

text \<open>
  The parameters that \<^verbatim>\<open>generateServerKeyExchange\<close> serialises: \<open>p\<close>, \<open>g\<close> and \<open>y\<close>, each
  after its 16-bit length.
\<close>

definition serverDHParams :: "bytes \<Rightarrow> bytes \<Rightarrow> bytes \<Rightarrow> bytes" where
  "serverDHParams pBytes gBytes yBytes =
     put16 (length pBytes) @ pBytes @ put16 (length gBytes) @ gBytes
       @ put16 (length yBytes) @ yBytes"

text \<open>
  \<^verbatim>\<open>yTheirs.Cmp(ka.p)\<close> and \<^verbatim>\<open>Exp(yTheirs, ka.xOurs, ka.p)\<close> dereference \<^verbatim>\<open>ka.p\<close> and
  \<^verbatim>\<open>ka.xOurs\<close>: a nil field is a panic.
\<close>

definition dheKeyAgreement_processClientKeyExchange ::
  "dheKeyAgreement \<Rightarrow> Config \<Rightarrow> Certificate \<Rightarrow> clientKeyExchangeMsg
     \<Rightarrow> (error + bytes) \<times> dheKeyAgreement" where
  "dheKeyAgreement_processClientKeyExchange ka config cert ckx =
     (if length (ciphertext ckx) < 2 then (Inl errClientKeyExchange, ka)
      else
        (let yLen = be16 (ciphertext ckx ! 0) (ciphertext ckx ! 1) in
         if yLen \<noteq> length (ciphertext ckx) - 2 then (Inl errClientKeyExchange, ka)
         else
           (let yTheirs' = SetBytes (drop 2 (ciphertext ckx));
                ka = ka\<lparr>yClient := Some yTheirs'\<rparr>
            in if yTheirs' \<le> 0 then (Inl errClientKeyExchange, ka)
               else
                 (case p ka of
                    None \<Rightarrow> (Inl nilDeref, ka)
                  | Some pv \<Rightarrow>
                      if yTheirs' \<ge> pv then (Inl errClientKeyExchange, ka)
                      else
                        (case xOurs ka of
                           None \<Rightarrow> (Inl nilDeref, ka)
                         | Some xv \<Rightarrow>
                             (case Exp yTheirs' xv pv of
                                None \<Rightarrow> (Inl nilDeref, ka)
                              | Some z \<Rightarrow> (Inr (Bytes z), ka)))))))"

definition dheKeyAgreement_processServerKeyExchange ::
  "verifyParameters \<Rightarrow> dheKeyAgreement \<Rightarrow> Config \<Rightarrow> clientHelloMsg \<Rightarrow> serverHelloMsg
     \<Rightarrow> x509Certificate \<Rightarrow> serverKeyExchangeMsg
     \<Rightarrow> error option \<times> dheKeyAgreement \<times> serverKeyExchangeMsg" where
  "dheKeyAgreement_processServerKeyExchange verifyParameters ka config clientHello serverHello cert skx =
     (let k = key skx in
      if length k < 2 then (Some errServerKeyExchange, ka, skx)
      else
        (let pLen = be16 (k ! 0) (k ! 1); k = drop 2 k in
         if length k < pLen then (Some errServerKeyExchange, ka, skx)
         else
           (let pv = SetBytes (take pLen k); ka = ka\<lparr>p := Some pv\<rparr>; k = drop pLen k in
            if length k < 2 then (Some errServerKeyExchange, ka, skx)
            else
              (let gLen = be16 (k ! 0) (k ! 1); k = drop 2 k in
               if length k < gLen then (Some errServerKeyExchange, ka, skx)
               else
                 (let ka = ka\<lparr>g := Some (SetBytes (take gLen k))\<rparr>; k = drop gLen k in
                  if length k < 2 then (Some errServerKeyExchange, ka, skx)
                  else
                    (let yLen = be16 (k ! 0) (k ! 1); k = drop 2 k in
                     if length k < yLen then (Some errServerKeyExchange, ka, skx)
                     else
                       (let yv = SetBytes (take yLen k);
                            ka = ka\<lparr>yTheirs := Some yv\<rparr>;
                            ka = ka\<lparr>yServer := Some yv\<rparr>;
                            k = drop yLen k
                        in if yv \<le> 0 \<or> yv \<ge> pv
                           then (Some errServerKeyExchange, ka, skx)
                           else
                             (let sig = k;
                                  serverDHParams = take (length (key skx) - length sig) (key skx);
                                  (dg, verr) =
                                    verifyParameters config clientHello serverHello cert
                                      serverDHParams sig;
                                  skx = skx\<lparr>digest := dg\<rparr>;
                                  ka = ka\<lparr>dheKeyAgreement.verifyError := verr\<rparr>
                              in if InsecureSkipVerify config then (None, ka, skx)
                                 else (dheKeyAgreement.verifyError ka, ka, skx)))))))))"

text \<open>
  \<^verbatim>\<open>rand.Int(config.rand(), max)\<close> is an argument: it returns the number or an error, and
  the reader it has left. The loop \<^verbatim>\<open>for !done\<close> of the cases \<^verbatim>\<open>g3\<close>, \<^verbatim>\<open>g5\<close> and \<^verbatim>\<open>g7\<close>
  draws until the power is not 1; it may run forever, so its value is an option. The
  error of \<^verbatim>\<open>rand.Int\<close> is dropped there and the nil number is dereferenced by \<^verbatim>\<open>Exp\<close>.
  When \<^verbatim>\<open>gen.Exp\<close> returns nil, \<open>gen\<close> keeps its value.
\<close>

type_synonym randInt = "reader \<Rightarrow> int \<Rightarrow> (error + int) \<times> reader"

partial_function (option) genLoop ::
  "randInt \<Rightarrow> reader \<Rightarrow> int \<Rightarrow> int \<Rightarrow> int \<Rightarrow> (error + int) option" where
  "genLoop randInt r gen pm1dk pv =
     (case randInt r pv of
        (Inl err, r') \<Rightarrow> Some (Inl nilDeref)
      | (Inr h, r') \<Rightarrow>
          (let gen' = (case Exp h pm1dk pv of None \<Rightarrow> gen | Some z \<Rightarrow> z) in
           if gen' \<noteq> 1 then Some (Inr gen') else genLoop randInt r' gen' pm1dk pv))"

text \<open>
  The locals \<open>(err, yOurs, xOurs, preMasterSecret)\<close> after the \<^verbatim>\<open>switch\<close>, or a panic. The
  three cases \<^verbatim>\<open>g3\<close>, \<^verbatim>\<open>g5\<close>, \<^verbatim>\<open>g7\<close> are the same code but for the constant \<open>k\<close>.
\<close>

type_synonym dheLocals = "error option \<times> int \<times> int \<times> bytes"

definition smallOrder :: "randInt \<Rightarrow> reader \<Rightarrow> int \<Rightarrow> int \<Rightarrow> string \<Rightarrow> (error + dheLocals) option" where
  "smallOrder randInt r pv k msg =
     (let pm1 = pv - 1; gen = 0; pm1dk = pm1 div k; rem = pm1 mod k in
      if rem = 0 then
        (case genLoop randInt r gen pm1dk pv of
           None \<Rightarrow> None
         | Some (Inl e) \<Rightarrow> Some (Inl e)
         | Some (Inr gen') \<Rightarrow> Some (Inr (None, gen', 0, Bytes gen')))
      else Some (Inr (Some (errorsNew msg), gen, 0, Bytes gen)))"

definition kexSwitch ::
  "randInt \<Rightarrow> string \<Rightarrow> reader \<Rightarrow> int \<Rightarrow> int \<Rightarrow> int \<Rightarrow> (error + dheLocals) option" where
  "kexSwitch randInt kexConfig r pv gv yv =
     (if kexConfig = ''0'' then Some (Inr (None, 0, 0, Bytes 0))
      else if kexConfig = ''1'' then Some (Inr (None, 1, 0, Bytes 1))
      else if kexConfig = ''pm1'' then Some (Inr (None, pv - 1, 0, Bytes (pv - 1)))
      else if kexConfig = ''g3'' then smallOrder randInt r pv 3 ''order not divisible by 3''
      else if kexConfig = ''g5'' then smallOrder randInt r pv 5 ''order not divisible by 5''
      else if kexConfig = ''g7'' then smallOrder randInt r pv 7 ''order not divisible by 7''
      else
        (case randInt r pv of
           (Inl err, r') \<Rightarrow> Some (Inl nilDeref)
         | (Inr xv, r') \<Rightarrow>
             (case Exp yv xv pv of
                None \<Rightarrow> Some (Inl nilDeref)
              | Some pm \<Rightarrow>
                  (case Exp gv xv pv of
                     None \<Rightarrow> Some (Inl nilDeref)
                   | Some y \<Rightarrow> Some (Inr (None, y, xv, Bytes pm))))))"

definition dheKeyAgreement_generateClientKeyExchange ::
  "randInt \<Rightarrow> dheKeyAgreement \<Rightarrow> Config \<Rightarrow> clientHelloMsg \<Rightarrow> x509Certificate
     \<Rightarrow> ((error + (bytes \<times> clientKeyExchangeMsg)) \<times> dheKeyAgreement) option" where
  "dheKeyAgreement_generateClientKeyExchange randInt ka config clientHello cert =
     (case (p ka, g ka, yTheirs ka) of
        (Some pv, Some gv, Some yv) \<Rightarrow>
          (case kexSwitch randInt (KexConfig config) (rand config) pv gv yv of
             None \<Rightarrow> None
           | Some (Inl e) \<Rightarrow> Some (Inl e, ka)
           | Some (Inr (Some err, yOurs', xOurs', preMasterSecret)) \<Rightarrow> Some (Inl err, ka)
           | Some (Inr (None, yOurs', xOurs', preMasterSecret)) \<Rightarrow>
               (let ka = ka\<lparr>yOurs := Some yOurs'\<rparr>;
                    ka = ka\<lparr>xOurs := Some xOurs'\<rparr>;
                    ka = ka\<lparr>yClient := Some yOurs'\<rparr>;
                    yBytes = Bytes yOurs'
                in Some (Inr (preMasterSecret,
                              \<lparr>ciphertext = put16 (length yBytes) @ yBytes\<rparr>), ka)))
      | _ \<Rightarrow> Some (Inl (errorsNew ''missing ServerKeyExchange message''), ka))"

subsection \<open>Curves\<close>

text \<open>
  Modelled from the spec: the \<^verbatim>\<open>CurveID\<close> constants are declared in \<^verbatim>\<open>tls/common.go\<close>,
  which is not among the sources; the specification calls a \<^verbatim>\<open>CurveID\<close> the IANA 16-bit
  named-group identifier, and these are the IANA values of the nineteen groups.
\<close>

definition CurveT163k1 :: CurveID where "CurveT163k1 = 1"
definition CurveT163r1 :: CurveID where "CurveT163r1 = 2"
definition CurveT163r2 :: CurveID where "CurveT163r2 = 3"
definition CurveP160k1 :: CurveID where "CurveP160k1 = 15"
definition CurveP160r1 :: CurveID where "CurveP160r1 = 16"
definition CurveP160r2 :: CurveID where "CurveP160r2 = 17"
definition CurveP192k1 :: CurveID where "CurveP192k1 = 18"
definition CurveP192r1 :: CurveID where "CurveP192r1 = 19"
definition CurveP224k1 :: CurveID where "CurveP224k1 = 20"
definition CurveP224r1 :: CurveID where "CurveP224r1 = 21"
definition CurveP256k1 :: CurveID where "CurveP256k1 = 22"
definition CurveP256r1 :: CurveID where "CurveP256r1 = 23"
definition CurveP384r1 :: CurveID where "CurveP384r1 = 24"
definition CurveP521r1 :: CurveID where "CurveP521r1 = 25"
definition CurveBrainpoolP256r1 :: CurveID where "CurveBrainpoolP256r1 = 26"
definition CurveBrainpoolP384r1 :: CurveID where "CurveBrainpoolP384r1 = 27"
definition CurveBrainpoolP512r1 :: CurveID where "CurveBrainpoolP512r1 = 28"
definition Curve25519 :: CurveID where "Curve25519 = 29"
definition Curve448 :: CurveID where "Curve448 = 30"

text \<open>
  A \<^verbatim>\<open>ecdh.Curve\<close> is an interface value; the nineteen constructors of package \<^verbatim>\<open>ecdh\<close> that
  \<^verbatim>\<open>curveForCurveID\<close> calls are the values of the datatype, and the nil interface is \<open>None\<close>.
  The four methods of the interface are arguments of the operations.
\<close>

datatype Curve =
    T163k1
  | T163r1
  | T163r2
  | P160r1
  | P160k1
  | P160r2
  | P192r1
  | P192k1
  | P224k1
  | P224r1
  | P256k1
  | P256r1
  | P384r1
  | P521r1
  | BrainpoolP256r1
  | BrainpoolP384r1
  | BrainpoolP512r1
  | X25519
  | X448

record ECDHPublicKey =
  X :: "int option"
  Y :: "int option"

record ECDHPrivateKey =
  D :: bytes

type_synonym GenerateKey = "Curve \<Rightarrow> reader \<Rightarrow> error + (ECDHPrivateKey \<times> ECDHPublicKey)"
type_synonym Marshal = "Curve \<Rightarrow> ECDHPublicKey \<Rightarrow> bool \<Rightarrow> bytes"
type_synonym Unmarshal = "Curve \<Rightarrow> bytes \<Rightarrow> ECDHPublicKey option"
type_synonym GenerateSharedSecret =
  "Curve \<Rightarrow> ECDHPrivateKey option \<Rightarrow> ECDHPublicKey option \<Rightarrow> error + bytes"

definition curveForCurveID :: "CurveID \<Rightarrow> Curve option" where
  "curveForCurveID cid =
      (if cid = CurveT163k1 then Some T163k1
      else if cid = CurveT163r1 then Some T163r1
      else if cid = CurveT163r2 then Some T163r2
      else if cid = CurveP160r1 then Some P160r1
      else if cid = CurveP160k1 then Some P160k1
      else if cid = CurveP160r2 then Some P160r2
      else if cid = CurveP192r1 then Some P192r1
      else if cid = CurveP192k1 then Some P192k1
      else if cid = CurveP224k1 then Some P224k1
      else if cid = CurveP224r1 then Some P224r1
      else if cid = CurveP256k1 then Some P256k1
      else if cid = CurveP256r1 then Some P256r1
      else if cid = CurveP384r1 then Some P384r1
      else if cid = CurveP521r1 then Some P521r1
      else if cid = CurveBrainpoolP256r1 then Some BrainpoolP256r1
      else if cid = CurveBrainpoolP384r1 then Some BrainpoolP384r1
      else if cid = CurveBrainpoolP512r1 then Some BrainpoolP512r1
      else if cid = Curve25519 then Some X25519
      else if cid = Curve448 then Some X448
      else None)"

subsection \<open>ecdheKeyAgreement\<close>

record ecdheKeyAgreement =
  privateKey :: "ECDHPrivateKey option"
  serverPublicKey :: "ECDHPublicKey option"
  clientPublicKey :: "ECDHPublicKey option"
  curve :: "Curve option"
  verifyError :: "error option"
  curveID :: CurveID
  clientPrivKey :: bytes
  serverPrivKey :: bytes
  clientX :: "int option"
  clientY :: "int option"

text \<open>
  The inner loop over \<^verbatim>\<open>clientHello.supportedCurves\<close> and the outer loop \<^verbatim>\<open>NextCandidate\<close>
  over the preferences; the result of the outer loop is the local \<^verbatim>\<open>curveid\<close>, whose zero
  value is 0.
\<close>

fun supportedLoop :: "CurveID \<Rightarrow> CurveID list \<Rightarrow> CurveID option" where
  "supportedLoop candidate [] = None"
| "supportedLoop candidate (c # cs) =
     (if candidate = c then Some c else supportedLoop candidate cs)"

fun NextCandidate :: "CurveID list \<Rightarrow> CurveID list \<Rightarrow> CurveID" where
  "NextCandidate [] supported = 0"
| "NextCandidate (candidate # preferredCurves) supported =
     (case supportedLoop candidate supported of
        Some c \<Rightarrow> c
      | None \<Rightarrow> NextCandidate preferredCurves supported)"

definition errNoCurves :: error where
  "errNoCurves = errorsNew ''tls: no supported elliptic curves offered''"

definition errUnsupportedPreferred :: error where
  "errUnsupportedPreferred = errorsNew ''tls: preferredCurves includes unsupported curve''"

definition errUnsupportedCurve :: error where
  "errUnsupportedCurve = errorsNew ''tls: server selected unsupported curve''"

definition errMissingSKX :: error where
  "errMissingSKX = errorsNew ''missing ServerKeyExchange message''"

text \<open>
  The parameters that \<^verbatim>\<open>generateServerKeyExchange\<close> serialises: the curve type 3 (named
  curve), the curve identifier, and the public point after its 8-bit length.
\<close>

definition serverECDHParams :: "CurveID \<Rightarrow> bytes \<Rightarrow> bytes" where
  "serverECDHParams curveid ecdhePublic =
     [3, ucast (drop_bit 8 curveid), ucast curveid, of_nat (length ecdhePublic)] @ ecdhePublic"

definition ecdheKeyAgreement_generateServerKeyExchange ::
  "GenerateKey \<Rightarrow> Marshal \<Rightarrow> signParameters \<Rightarrow> ecdheKeyAgreement \<Rightarrow> Config \<Rightarrow> Certificate
     \<Rightarrow> clientHelloMsg \<Rightarrow> serverHelloMsg
     \<Rightarrow> (error + serverKeyExchangeMsg) \<times> ecdheKeyAgreement" where
  "ecdheKeyAgreement_generateServerKeyExchange GenerateKey Marshal signParameters ka config cert
       clientHello hello =
     (let curveid = NextCandidate (curvePreferences config) (supportedCurves clientHello) in
      if curveid = 0 then (Inl errNoCurves, ka)
      else
        (let ka = ka\<lparr>curveID := curveid\<rparr>;
             ka = ka\<lparr>curve := curveForCurveID curveid\<rparr>
         in case curve ka of
              None \<Rightarrow> (Inl errUnsupportedPreferred, ka)
            | Some c \<Rightarrow>
                (case GenerateKey c (rand config) of
                   Inl err \<Rightarrow> (Inl err, ka\<lparr>ecdheKeyAgreement.privateKey := None\<rparr>)
                 | Inr (priv, pub) \<Rightarrow>
                     (let ka = ka\<lparr>ecdheKeyAgreement.privateKey := Some priv\<rparr>;
                          ecdhePublic = Marshal c pub False;
                          ka = ka\<lparr>serverPrivKey := ECDHPrivateKey.D priv\<rparr>;
                          params = serverECDHParams curveid ecdhePublic
                      in (signParameters config cert clientHello hello params, ka)))))"

definition ecdheKeyAgreement_processServerKeyExchange ::
  "Unmarshal \<Rightarrow> verifyParameters \<Rightarrow> ecdheKeyAgreement \<Rightarrow> Config \<Rightarrow> clientHelloMsg
     \<Rightarrow> serverHelloMsg \<Rightarrow> x509Certificate \<Rightarrow> serverKeyExchangeMsg
     \<Rightarrow> error option \<times> ecdheKeyAgreement \<times> serverKeyExchangeMsg" where
  "ecdheKeyAgreement_processServerKeyExchange Unmarshal verifyParameters ka config clientHello
       serverHello cert skx =
     (if length (key skx) < 4 then (Some errServerKeyExchange, ka, skx)
      else if key skx ! 0 \<noteq> 3 then (Some errUnsupportedCurve, ka, skx)
      else
        (let ka = ka\<lparr>curveID := push_bit 8 (ucast (key skx ! 1)) OR ucast (key skx ! 2)\<rparr>;
             ka = ka\<lparr>curve := curveForCurveID (curveID ka)\<rparr>
         in case curve ka of
              None \<Rightarrow> (Some errUnsupportedCurve, ka, skx)
            | Some c \<Rightarrow>
                (let publicLen = unat (key skx ! 3) in
                 if publicLen + 4 > length (key skx) then (Some errServerKeyExchange, ka, skx)
                 else
                   (let ka = ka\<lparr>serverPublicKey := Unmarshal c (take publicLen (drop 4 (key skx)))\<rparr>
                    in case serverPublicKey ka of
                         None \<Rightarrow> (Some errServerKeyExchange, ka, skx)
                       | Some pk \<Rightarrow>
                           (let serverECDHParams = take (4 + publicLen) (key skx);
                                sig = drop (4 + publicLen) (key skx);
                                (dg, verr) =
                                  verifyParameters config clientHello serverHello cert
                                    serverECDHParams sig;
                                skx = skx\<lparr>digest := dg\<rparr>;
                                ka = ka\<lparr>ecdheKeyAgreement.verifyError := verr\<rparr>
                            in if InsecureSkipVerify config then (None, ka, skx)
                               else (ecdheKeyAgreement.verifyError ka, ka, skx))))))"

text \<open>
  \<^verbatim>\<open>strings.Split(s, ",")\<close>: the pieces of \<open>s\<close> between the separators, one more than there
  are separators, so the empty string gives one empty piece.
\<close>

fun Split :: "string \<Rightarrow> char \<Rightarrow> string list" where
  "Split [] sep = [[]]"
| "Split (c # cs) sep =
     (if c = sep then [] # Split cs sep
      else (case Split cs sep of
              [] \<Rightarrow> [[c]]
            | w # ws \<Rightarrow> (c # w) # ws))"

text \<open>
  The locals of \<^verbatim>\<open>generateClientKeyExchange\<close> that the loop over the options sets. One
  step of the loop is the \<^verbatim>\<open>switch\<close>: it returns the locals and the receiver, whose
  \<^verbatim>\<open>curveID\<close> the payload options set, or \<open>None\<close> for the panic of the \<^verbatim>\<open>default\<close> case.
\<close>

record kexLocals =
  compress :: bool
  staticKex :: bool
  mx :: "int option"
  my :: "int option"

text \<open>The locals before the loop over the options.\<close>

definition kexLocals0 :: kexLocals where
  "kexLocals0 = \<lparr>compress = False, staticKex = False, mx = None, my = None\<rparr>"

definition kexOption ::
  "string \<Rightarrow> kexLocals \<times> ecdheKeyAgreement \<Rightarrow> (kexLocals \<times> ecdheKeyAgreement) option" where
  "kexOption option lka =
     (case lka of (l, ka) \<Rightarrow>
     (if option = ''COMPRESS'' then Some (l\<lparr>compress := True\<rparr>, ka)
      else if option = ''X25519_INVALID_S2'' then
        Some (l\<lparr>mx := Some 0, staticKex := True\<rparr>,
              ka\<lparr>curveID := Curve25519\<rparr>)
      else if option = ''X25519_INVALID_S4'' then
        Some (l\<lparr>mx := Some 1, staticKex := True\<rparr>,
              ka\<lparr>curveID := Curve25519\<rparr>)
      else if option = ''X25519_INVALID_S8'' then
        Some (l\<lparr>mx := Some 39382357235489614581723060781553021112529911719440698176882885853963445705823, staticKex := True\<rparr>,
              ka\<lparr>curveID := Curve25519\<rparr>)
      else if option = ''X25519_TWIST_S4'' then
        Some (l\<lparr>mx := Some 40037414119260815170158213804056845813451397265373646178320500467079007173856, staticKex := True\<rparr>,
              ka\<lparr>curveID := Curve25519\<rparr>)
      else if option = ''256_ECP_INVALID_S5'' then
        Some (l\<lparr>mx := Some 86765160823711241075790919525606906052464424178558764461827806608937748883041,
                my := Some 62096069626295534024197897036720226401219594482857127378802405572766226928611, staticKex := True\<rparr>,
              ka\<lparr>curveID := CurveP256r1\<rparr>)
      else if option = ''256_ECP_TWIST_S5'' then
        Some (l\<lparr>mx := Some 65000580346672419638629453770715906531917592959616632823634978442784087859381,
                my := Some 101434952638835666830672287755036482040135206184891409299575619037815517987306, staticKex := True\<rparr>,
              ka\<lparr>curveID := CurveP256r1\<rparr>)
      else if option = ''256_ECP_TWIST_S5_SHARED'' then
        Some (l\<lparr>mx := Some 75610932410248387784210576211184530780201393864652054865721797292564276389325,
                my := Some 17016988387429062713000967549338170748423683329322284176365945285736516510233, staticKex := True\<rparr>,
              ka\<lparr>curveID := CurveP256r1\<rparr>)
      else if option = ''224_ECP_INVALID_S13'' then
        Some (l\<lparr>mx := Some 1234919426772886915432358412587735557527373236174597031415308881584,
                my := Some 218592750580712164156183367176268299828628545379017213517316023994, staticKex := True\<rparr>,
              ka\<lparr>curveID := CurveP224r1\<rparr>)
      else if option = ''224_ECP_TWIST_S11'' then
        Some (l\<lparr>mx := Some 21219928721835262216070635629075256199931199995500865785214182108232,
                my := Some 2486431965114139990348241493232938533843075669604960787364227498903, staticKex := True\<rparr>,
              ka\<lparr>curveID := CurveP224r1\<rparr>)
      else if option = '''' then Some (l, ka)
      else None))"

definition panicKexOption :: error where
  "panicKexOption = Panic ''unrecognized tls-kex-config option''"

fun kexLoop ::
  "string list \<Rightarrow> kexLocals \<times> ecdheKeyAgreement
     \<Rightarrow> error option \<times> kexLocals \<times> ecdheKeyAgreement" where
  "kexLoop [] lka = (None, lka)"
| "kexLoop (option # kexConfig) lka =
     (case kexOption option lka of
        None \<Rightarrow> (Some panicKexOption, lka)
      | Some lka' \<Rightarrow> kexLoop kexConfig lka')"

definition ecdheKeyAgreement_generateClientKeyExchange ::
  "GenerateKey \<Rightarrow> GenerateSharedSecret \<Rightarrow> Marshal \<Rightarrow> ecdheKeyAgreement \<Rightarrow> Config
     \<Rightarrow> clientHelloMsg \<Rightarrow> x509Certificate
     \<Rightarrow> (error + (bytes \<times> clientKeyExchangeMsg)) \<times> ecdheKeyAgreement" where
  "ecdheKeyAgreement_generateClientKeyExchange GenerateKey GenerateSharedSecret Marshal ka config
       clientHello cert =
     (case curve ka of
        None \<Rightarrow> (Inl errMissingSKX, ka)
      | Some c0 \<Rightarrow>
          (case kexLoop (Split (KexConfig config) (CHR '',''))
                  (kexLocals0, ka) of
             (Some e, l, ka) \<Rightarrow> (Inl e, ka)
           | (None, l, ka) \<Rightarrow>
               (case
                  (if staticKex l then
                     (let ka = ka\<lparr>curve := curveForCurveID (curveID ka)\<rparr>;
                          ka = ka\<lparr>ecdheKeyAgreement.privateKey := None\<rparr>;
                          ka = ka\<lparr>clientPublicKey := Some \<lparr>X = mx l, Y = my l\<rparr>\<rparr>
                      in case mx l of
                           None \<Rightarrow> (Inl nilDeref, ka)
                         | Some xv \<Rightarrow> (Inr (Bytes xv), ka))
                   else
                     (case GenerateKey c0 (rand config) of
                        Inl err \<Rightarrow>
                          (Inl err,
                           ka\<lparr>ecdheKeyAgreement.privateKey := None, clientPublicKey := None\<rparr>)
                      | Inr (priv, pub) \<Rightarrow>
                          (let ka = ka\<lparr>ecdheKeyAgreement.privateKey := Some priv,
                                      clientPublicKey := Some pub\<rparr>
                           in case GenerateSharedSecret c0 (ecdheKeyAgreement.privateKey ka)
                                     (serverPublicKey ka) of
                                Inl err \<Rightarrow> (Inl err, ka)
                              | Inr secret \<Rightarrow> (Inr secret, ka)))) of
                  (Inl e, ka) \<Rightarrow> (Inl e, ka)
                | (Inr preMasterSecret, ka) \<Rightarrow>
                    (case (curve ka, clientPublicKey ka) of
                       (Some c, Some pub) \<Rightarrow>
                         (let serialized = Marshal c pub (compress l) in
                          (Inr (preMasterSecret,
                                \<lparr>ciphertext = of_nat (length serialized) # serialized\<rparr>), ka))
                     | _ \<Rightarrow> (Inl nilDeref, ka)))))"

subsection \<open>Zero values and stand-ins for the library primitives\<close>

text \<open>
  The zero values of the three state structs, and small executable stand-ins for the
  primitives that the operations take as arguments. The theorems hold for every primitive;
  the stand-ins are used where an operation is evaluated at a concrete input.
\<close>

definition zero_rsaKeyAgreement :: rsaKeyAgreement where
  "zero_rsaKeyAgreement =
     \<lparr>version = 0, clientVersion = 0, ephemeral = False, privateKey = None, publicKey = None,
      verifyError = None\<rparr>"

definition zero_dheKeyAgreement :: dheKeyAgreement where
  "zero_dheKeyAgreement =
     \<lparr>p = None, g = None, yTheirs = None, yOurs = None, xOurs = None, yServer = None,
      yClient = None, verifyError = None\<rparr>"

definition zero_ecdheKeyAgreement :: ecdheKeyAgreement where
  "zero_ecdheKeyAgreement =
     \<lparr>privateKey = None, serverPublicKey = None, clientPublicKey = None, curve = None,
      verifyError = None, curveID = 0, clientPrivKey = [], serverPrivKey = [],
      clientX = None, clientY = None\<rparr>"

text \<open>A key generator that reads one byte, and a marshaller that writes a tag and X.\<close>

definition toyGenerateKey :: GenerateKey where
  "toyGenerateKey c r =
     (case ReadFull r 1 of
        Inl e \<Rightarrow> Inl e
      | Inr (d, r') \<Rightarrow> Inr (\<lparr>D = d\<rparr>, \<lparr>X = Some (SetBytes d), Y = Some 1\<rparr>))"

definition toyMarshal :: Marshal where
  "toyMarshal c pub compressed =
     (if compressed then 2 else 4) # Bytes (case X pub of None \<Rightarrow> 0 | Some xv \<Rightarrow> xv)"

definition toyUnmarshal :: Unmarshal where
  "toyUnmarshal c bs =
     (case bs of [] \<Rightarrow> None | t # xs \<Rightarrow> Some \<lparr>X = Some (SetBytes xs), Y = None\<rparr>)"

definition toyGenerateSharedSecret :: GenerateSharedSecret where
  "toyGenerateSharedSecret c priv pub =
     (case (priv, pub) of
        (Some k, Some q) \<Rightarrow> Inr (D k @ Bytes (case X q of None \<Rightarrow> 0 | Some xv \<Rightarrow> xv))
      | _ \<Rightarrow> Inl (libError ''ecdh: missing key''))"

text \<open>A sampler that reduces one byte of the reader modulo the bound.\<close>

definition toyRandInt :: randInt where
  "toyRandInt r m =
     (case r of [] \<Rightarrow> (Inl EOF, []) | b # r' \<Rightarrow> (Inr (uint b mod m), r'))"

text \<open>
  A decryption that reports an error for a ciphertext that is not 48 bytes long, as the
  library does for a ciphertext of the wrong length, leaves the buffer as it is when the
  first byte is not 2 (a padding failure) and else copies the complemented ciphertext.
\<close>

definition toyDecrypt :: "reader \<Rightarrow> rsaPrivateKey \<Rightarrow> bytes \<Rightarrow> bytes \<Rightarrow> error + bytes" where
  "toyDecrypt r k ct buf =
     (if length ct \<noteq> 48 then Inl (libError ''crypto/rsa: decryption error'')
      else if ct ! 0 \<noteq> 2 then Inr []
      else Inr (map (\<lambda>b. NOT b) ct))"

definition toyEncrypt :: "reader \<Rightarrow> rsaPublicKey \<Rightarrow> bytes \<Rightarrow> error + bytes" where
  "toyEncrypt r k m =
     (if N k = 0 then Inl (libError ''crypto/rsa: missing public modulus'')
      else Inr (map (\<lambda>b. NOT b) m))"

text \<open>A verification that always fails, as on a bad signature.\<close>

definition failingVerifyParameters :: verifyParameters where
  "failingVerifyParameters config clientHello serverHello cert params sig =
     ([], Some (libError ''crypto/rsa: verification error''))"

subsection \<open>The tokens of KexConfig\<close>

text \<open>
  The names that the \<^verbatim>\<open>switch\<close> of the ECDHE variant and the \<^verbatim>\<open>switch\<close> of the DHE variant
  have a \<^verbatim>\<open>case\<close> for, in the order of the source.
\<close>

definition ecdheKexOptions :: "string list" where
  "ecdheKexOptions =
     [''COMPRESS'', ''X25519_INVALID_S2'', ''X25519_INVALID_S4'', ''X25519_INVALID_S8'',
      ''X25519_TWIST_S4'', ''256_ECP_INVALID_S5'', ''256_ECP_TWIST_S5'',
      ''256_ECP_TWIST_S5_SHARED'', ''224_ECP_INVALID_S13'', ''224_ECP_TWIST_S11'', '''']"

definition dheKexOptions :: "string list" where
  "dheKexOptions = [''0'', ''1'', ''pm1'', ''g3'', ''g5'', ''g7'']"


text \<open>
  The payload cases of the \<^verbatim>\<open>switch\<close> read as a table: the curve that the case stores in
  \<^verbatim>\<open>ka.curveID\<close>, the X that it stores in \<^verbatim>\<open>mx\<close> and, for the cases that set it, the Y
  that it stores in \<^verbatim>\<open>my\<close>. \<open>lastPayload\<close> is the payload of the last payload option of a
  list of options, the one whose assignments are in force after the loop.
\<close>

definition staticPayload :: "string \<Rightarrow> (CurveID \<times> int \<times> int option) option" where
  "staticPayload option =
     (if option = ''X25519_INVALID_S2'' then Some (Curve25519, 0, None)
      else if option = ''X25519_INVALID_S4'' then Some (Curve25519, 1, None)
      else if option = ''X25519_INVALID_S8'' then
        Some (Curve25519,
              39382357235489614581723060781553021112529911719440698176882885853963445705823,
              None)
      else if option = ''X25519_TWIST_S4'' then
        Some (Curve25519,
              40037414119260815170158213804056845813451397265373646178320500467079007173856,
              None)
      else if option = ''256_ECP_INVALID_S5'' then
        Some (CurveP256r1,
              86765160823711241075790919525606906052464424178558764461827806608937748883041,
              Some 62096069626295534024197897036720226401219594482857127378802405572766226928611)
      else if option = ''256_ECP_TWIST_S5'' then
        Some (CurveP256r1,
              65000580346672419638629453770715906531917592959616632823634978442784087859381,
              Some 101434952638835666830672287755036482040135206184891409299575619037815517987306)
      else if option = ''256_ECP_TWIST_S5_SHARED'' then
        Some (CurveP256r1,
              75610932410248387784210576211184530780201393864652054865721797292564276389325,
              Some 17016988387429062713000967549338170748423683329322284176365945285736516510233)
      else if option = ''224_ECP_INVALID_S13'' then
        Some (CurveP224r1,
              1234919426772886915432358412587735557527373236174597031415308881584,
              Some 218592750580712164156183367176268299828628545379017213517316023994)
      else if option = ''224_ECP_TWIST_S11'' then
        Some (CurveP224r1,
              21219928721835262216070635629075256199931199995500865785214182108232,
              Some 2486431965114139990348241493232938533843075669604960787364227498903)
      else None)"

definition lastPayload ::
  "(CurveID \<times> int \<times> int option) option \<Rightarrow> string list
     \<Rightarrow> (CurveID \<times> int \<times> int option) option" where
  "lastPayload acc kexConfig =
     foldl (\<lambda>a option. case staticPayload option of None \<Rightarrow> a | Some v \<Rightarrow> Some v)
       acc kexConfig"

text \<open>
  \<open>lastY\<close> is the Y that the last option with a Y stored in \<^verbatim>\<open>my\<close>: the X25519 options
  leave \<^verbatim>\<open>my\<close> as it is. \<open>kexAgree\<close> relates the locals and the receiver in the loop to
  the options read so far: \<open>payload\<close> is the last payload, \<open>yv\<close> the last Y, \<open>cmp\<close> tells
  whether \<^verbatim>\<open>COMPRESS\<close> was read, and \<open>ka0\<close> is the receiver before the loop.
\<close>

definition lastY :: "int option \<Rightarrow> string list \<Rightarrow> int option" where
  "lastY acc kexConfig =
     foldl (\<lambda>a option. case staticPayload option of
                          None \<Rightarrow> a
                        | Some (c, xv, yo) \<Rightarrow> (case yo of None \<Rightarrow> a | Some yv \<Rightarrow> Some yv))
       acc kexConfig"

definition kexAgree ::
  "(CurveID \<times> int \<times> int option) option \<Rightarrow> int option \<Rightarrow> bool \<Rightarrow> ecdheKeyAgreement
     \<Rightarrow> kexLocals \<times> ecdheKeyAgreement \<Rightarrow> bool" where
  "kexAgree payload yv cmp ka0 lka =
     (case lka of (l, ka) \<Rightarrow>
        compress l = cmp \<and> my l = yv \<and>
        (case payload of
           None \<Rightarrow> \<not> staticKex l \<and> ka = ka0
         | Some (c, xv, yo) \<Rightarrow> staticKex l \<and> mx l = Some xv \<and> ka = ka0\<lparr>curveID := c\<rparr>))"

section \<open>Theorems\<close>

lemma isSupportedSignatureAndHash_iff:
  "isSupportedSignatureAndHash sh l \<longleftrightarrow> sh \<in> set l"
  by (induction l) auto

lemma pickLoop_find:
  "pickLoop sigType cl sl =
     (case find (\<lambda>sh. signature sh = sigType \<and> sh \<in> set sl) cl of
        None \<Rightarrow> Inl errNoCommonHash
      | Some sh \<Rightarrow> Inr (hash sh))"
  by (induction cl) (auto simp: isSupportedSignatureAndHash_iff)

subsection \<open>The hash picker\<close>

text \<open>
  C6: \<^verbatim>\<open>pickTLS12HashForSignature\<close> returns SHA-1 when the client list is empty;
  otherwise it returns the hash of the first element of the client list, in client order,
  whose signature is the signature type asked for and which is in the server list; on a
  client list that is not empty it returns the error "no common hash functions" exactly when
  there is no such element.
\<close>

theorem pickTLS12HashForSignature_first_common:
  "pickTLS12HashForSignature sigType clientList serverList =
     (if clientList = [] then Inr hashSHA1
      else case find (\<lambda>sh. signature sh = sigType \<and> sh \<in> set serverList) clientList of
             None \<Rightarrow> Inl errNoCommonHash
           | Some sh \<Rightarrow> Inr (hash sh))
   \<and> (clientList \<noteq> [] \<longrightarrow>
        (pickTLS12HashForSignature sigType clientList serverList = Inl errNoCommonHash)
          = (\<not> (\<exists>sh \<in> set clientList. signature sh = sigType \<and> sh \<in> set serverList)))"
  by (auto simp: pickTLS12HashForSignature_def pickLoop_find find_None_iff find_Some_iff
           split: option.splits)

theorem pickTLS12HashForSignature_first_common_witness:
  "[\<lparr>hash = hashSHA1, signature = signatureRSA\<rparr>, \<lparr>hash = hashSHA256, signature = signatureRSA\<rparr>] \<noteq> []
   \<and> pickTLS12HashForSignature signatureRSA
       [\<lparr>hash = hashSHA1, signature = signatureRSA\<rparr>, \<lparr>hash = hashSHA256, signature = signatureRSA\<rparr>]
       [\<lparr>hash = hashSHA256, signature = signatureRSA\<rparr>, \<lparr>hash = hashSHA384, signature = signatureRSA\<rparr>]
     = Inr hashSHA256
   \<and> pickTLS12HashForSignature signatureRSA
       [\<lparr>hash = hashSHA1, signature = signatureRSA\<rparr>, \<lparr>hash = hashSHA256, signature = signatureRSA\<rparr>]
       [\<lparr>hash = hashSHA256, signature = signatureRSA\<rparr>, \<lparr>hash = hashSHA384, signature = signatureRSA\<rparr>]
     \<noteq> Inl errNoCommonHash"
  using pickTLS12HashForSignature_first_common [of signatureRSA
      "[\<lparr>hash = hashSHA1, signature = signatureRSA\<rparr>, \<lparr>hash = hashSHA256, signature = signatureRSA\<rparr>]"
      "[\<lparr>hash = hashSHA256, signature = signatureRSA\<rparr>, \<lparr>hash = hashSHA384, signature = signatureRSA\<rparr>]"]
  by (simp add: hashSHA1_def hashSHA256_def hashSHA384_def signatureRSA_def)

subsection \<open>Lengths and big integers on the wire\<close>

lemma be16_eq: "be16 a b = unat a * 256 + unat b"
proof -
  have "unat b < 2 ^ 8" using unsigned_less [of b] by simp
  then have "push_bit 8 (unat a) AND unat b = 0"
    by (auto simp add: bit_eq_iff bit_simps dest: bit_imp_le_length)
  then have "push_bit 8 (unat a) + unat b = push_bit 8 (unat a) OR unat b"
    by (rule disjunctive_add_eq_or)
  then show ?thesis by (simp add: be16_def push_bit_eq_mult)
qed

lemma be16_put16:
  assumes "n < 65536"
  shows "be16 (put16 n ! 0) (put16 n ! 1) = n"
proof -
  have a: "unat (of_nat (n div 256) :: byte) = n div 256"
    using assms by (simp add: unat_of_nat take_bit_nat_eq_self) 
  have b: "unat (of_nat n :: byte) = n mod 256"
    by (simp add: unat_of_nat take_bit_eq_mod)
  show ?thesis by (simp add: be16_eq put16_def drop_bit_eq_div a b)
qed

lemma length_put16 [simp]: "length (put16 n) = 2"
  by (simp add: put16_def)

lemma SetBytes_append: "SetBytes (xs @ [b]) = SetBytes xs * 256 + uint b"
  by (simp add: SetBytes_def)

lemma SetBytes_nonneg: "0 \<le> SetBytes bs"
  by (induction bs rule: rev_induct) (simp_all add: SetBytes_def)

lemma SetBytes_natBytes: "SetBytes (natBytes n) = int n"
proof (induction n rule: natBytes.induct)
  case (1 n)
  show ?case
  proof (cases "n = 0")
    case True
    then show ?thesis by (simp add: natBytes.simps SetBytes_def)
  next
    case False
    have "uint (of_nat (n mod 256) :: byte) = int (n mod 256)"
      by (simp add: uint_nat unat_of_nat take_bit_eq_mod)
    with False 1 show ?thesis
      by (subst natBytes.simps) (simp add: SetBytes_append of_nat_mod of_nat_div)
  qed
qed

lemma natBytes_no_leading_zero: "natBytes n \<noteq> [] \<Longrightarrow> hd (natBytes n) \<noteq> 0"
proof (induction n rule: natBytes.induct)
  case (1 n)
  show ?case
  proof (cases "n div 256 = 0")
    case True
    with 1(2) have n: "0 < n" "n < 256" by (auto simp: natBytes.simps split: if_splits)
    then have "natBytes n = [of_nat n]"
      by (simp add: natBytes.simps [of n] natBytes.simps [of 0])
    moreover have "(of_nat n :: byte) \<noteq> 0"
      using n by (simp add: of_nat_eq_0_iff unat_of_nat word_eq_iff_unsigned [where ?'a = nat] take_bit_nat_eq_self)
    ultimately show ?thesis by simp
  next
    case False
    then have "n \<noteq> 0" by auto
    moreover from False have "natBytes (n div 256) \<noteq> []"
      by (subst natBytes.simps) simp
    ultimately show ?thesis
      using 1(1) by (subst natBytes.simps) simp
  qed
qed

lemmas curve_consts = CurveT163k1_def CurveT163r1_def CurveT163r2_def CurveP160k1_def
  CurveP160r1_def CurveP160r2_def CurveP192k1_def CurveP192r1_def CurveP224k1_def CurveP224r1_def
  CurveP256k1_def CurveP256r1_def CurveP384r1_def CurveP521r1_def CurveBrainpoolP256r1_def
  CurveBrainpoolP384r1_def CurveBrainpoolP512r1_def Curve25519_def Curve448_def

lemma natBytes_0 [simp]: "natBytes 0 = []"
  by (simp add: natBytes.simps)

lemma natBytes_small: "0 < n \<Longrightarrow> n < 256 \<Longrightarrow> natBytes n = [of_nat n]"
  by (simp add: natBytes.simps [of n])

subsection \<open>Curve selection\<close>

lemma supportedLoop_eq:
  "supportedLoop candidate cs = (if candidate \<in> set cs then Some candidate else None)"
  by (induction cs) auto

lemma NextCandidate_find:
  "NextCandidate prefs cs =
     (case find (\<lambda>c. c \<in> set cs) prefs of None \<Rightarrow> 0 | Some c \<Rightarrow> c)"
  by (induction prefs) (auto simp: supportedLoop_eq)

lemma find_None_disjoint:
  "find (\<lambda>c. c \<in> set cs) prefs = None \<longleftrightarrow> set prefs \<inter> set cs = {}"
  by (auto simp: find_None_iff)

lemma generateServerKeyExchange_curveID:
  "NextCandidate (curvePreferences config) (supportedCurves clientHello) \<noteq> 0 \<Longrightarrow>
   curveID (snd (ecdheKeyAgreement_generateServerKeyExchange GenerateKey Marshal signParameters
       ka config cert clientHello hello))
     = NextCandidate (curvePreferences config) (supportedCurves clientHello)"
  by (simp add: ecdheKeyAgreement_generateServerKeyExchange_def Let_def
      split: option.splits sum.splits prod.splits)

lemma generateServerKeyExchange_zero:
  "NextCandidate (curvePreferences config) (supportedCurves clientHello) = 0 \<Longrightarrow>
   ecdheKeyAgreement_generateServerKeyExchange GenerateKey Marshal signParameters
       ka config cert clientHello hello = (Inl errNoCurves, ka)"
  by (simp add: ecdheKeyAgreement_generateServerKeyExchange_def)

lemma generateServerKeyExchange_Inr:
  "fst (ecdheKeyAgreement_generateServerKeyExchange GenerateKey Marshal signParameters
       ka config cert clientHello hello) = Inr skx \<Longrightarrow>
   NextCandidate (curvePreferences config) (supportedCurves clientHello) \<noteq> 0"
  by (auto simp add: ecdheKeyAgreement_generateServerKeyExchange_def)

text \<open>
  C8: \<^verbatim>\<open>ecdheKeyAgreement.generateServerKeyExchange\<close> selects the curve by the outer loop
  over \<^verbatim>\<open>config.curvePreferences()\<close> and the inner loop over \<^verbatim>\<open>clientHello.supportedCurves\<close>:
  the selection is the first server-preferred curve that the client supports; when the two
  lists are disjoint the operation fails with "no supported elliptic curves offered"; a
  selected curve other than 0 is stored as \<^verbatim>\<open>ka.curveID\<close>, and when the operation returns a
  message the stored curve is that first common curve.
\<close>

theorem generateServerKeyExchange_server_preference:
  "NextCandidate (curvePreferences config) (supportedCurves clientHello) =
     (case find (\<lambda>c. c \<in> set (supportedCurves clientHello)) (curvePreferences config) of
        None \<Rightarrow> 0 | Some c \<Rightarrow> c)
   \<and> (set (curvePreferences config) \<inter> set (supportedCurves clientHello) = {} \<longrightarrow>
        ecdheKeyAgreement_generateServerKeyExchange GenerateKey Marshal signParameters
          ka config cert clientHello hello = (Inl errNoCurves, ka))
   \<and> (\<forall>c. find (\<lambda>c. c \<in> set (supportedCurves clientHello)) (curvePreferences config) = Some c
          \<and> c \<noteq> 0 \<longrightarrow>
        curveID (snd (ecdheKeyAgreement_generateServerKeyExchange GenerateKey Marshal
          signParameters ka config cert clientHello hello)) = c)
   \<and> (\<forall>skx. fst (ecdheKeyAgreement_generateServerKeyExchange GenerateKey Marshal
          signParameters ka config cert clientHello hello) = Inr skx \<longrightarrow>
        find (\<lambda>c. c \<in> set (supportedCurves clientHello)) (curvePreferences config)
          = Some (curveID (snd (ecdheKeyAgreement_generateServerKeyExchange GenerateKey Marshal
              signParameters ka config cert clientHello hello))))"
proof (intro conjI allI impI)
  show "NextCandidate (curvePreferences config) (supportedCurves clientHello) =
     (case find (\<lambda>c. c \<in> set (supportedCurves clientHello)) (curvePreferences config) of
        None \<Rightarrow> 0 | Some c \<Rightarrow> c)"
    by (rule NextCandidate_find)
next
  assume "set (curvePreferences config) \<inter> set (supportedCurves clientHello) = {}"
  then have "NextCandidate (curvePreferences config) (supportedCurves clientHello) = 0"
    by (simp add: NextCandidate_find find_None_disjoint [symmetric])
  then show "ecdheKeyAgreement_generateServerKeyExchange GenerateKey Marshal signParameters
          ka config cert clientHello hello = (Inl errNoCurves, ka)"
    by (rule generateServerKeyExchange_zero)
next
  fix c
  assume "find (\<lambda>c. c \<in> set (supportedCurves clientHello)) (curvePreferences config) = Some c
          \<and> c \<noteq> 0"
  then have "NextCandidate (curvePreferences config) (supportedCurves clientHello) = c" "c \<noteq> 0"
    by (simp_all add: NextCandidate_find)
  then show "curveID (snd (ecdheKeyAgreement_generateServerKeyExchange GenerateKey Marshal
          signParameters ka config cert clientHello hello)) = c"
    using generateServerKeyExchange_curveID [of config clientHello] by simp
next
  fix skx
  assume a: "fst (ecdheKeyAgreement_generateServerKeyExchange GenerateKey Marshal
          signParameters ka config cert clientHello hello) = Inr skx"
  then have nz: "NextCandidate (curvePreferences config) (supportedCurves clientHello) \<noteq> 0"
    by (rule generateServerKeyExchange_Inr)
  then have "curveID (snd (ecdheKeyAgreement_generateServerKeyExchange GenerateKey Marshal
          signParameters ka config cert clientHello hello))
       = NextCandidate (curvePreferences config) (supportedCurves clientHello)"
    by (rule generateServerKeyExchange_curveID)
  with nz show "find (\<lambda>c. c \<in> set (supportedCurves clientHello)) (curvePreferences config)
          = Some (curveID (snd (ecdheKeyAgreement_generateServerKeyExchange GenerateKey Marshal
              signParameters ka config cert clientHello hello)))"
    by (auto simp: NextCandidate_find split: option.splits)
qed

theorem generateServerKeyExchange_server_preference_witness:
  "set [CurveP384r1] \<inter> set [Curve25519] = {}
   \<and> ecdheKeyAgreement_generateServerKeyExchange toyGenerateKey toyMarshal
        nilKeyAgreementAuthentication_signParameters zero_ecdheKeyAgreement
        \<lparr>rand = [7], KexConfig = [], InsecureSkipVerify = False, curvePreferences = [CurveP384r1]\<rparr>
        \<lparr>PrivateKey = ecdsa_PrivateKey 1\<rparr>
        \<lparr>vers = 0x0303, random = [], supportedCurves = [Curve25519], signatureAndHashes = []\<rparr>
        \<lparr>serverRandom = []\<rparr> = (Inl errNoCurves, zero_ecdheKeyAgreement)
   \<and> find (\<lambda>c. c \<in> set [CurveP256r1, Curve25519]) [CurveP384r1, CurveP256r1] = Some CurveP256r1
   \<and> CurveP256r1 \<noteq> 0
   \<and> fst (ecdheKeyAgreement_generateServerKeyExchange toyGenerateKey toyMarshal
        nilKeyAgreementAuthentication_signParameters zero_ecdheKeyAgreement
        \<lparr>rand = [7], KexConfig = [], InsecureSkipVerify = False,
          curvePreferences = [CurveP384r1, CurveP256r1]\<rparr>
        \<lparr>PrivateKey = ecdsa_PrivateKey 1\<rparr>
        \<lparr>vers = 0x0303, random = [], supportedCurves = [CurveP256r1, Curve25519],
          signatureAndHashes = []\<rparr>
        \<lparr>serverRandom = []\<rparr>) = Inr \<lparr>key = [3, 0, 23, 2, 4, 7], digest = []\<rparr>
   \<and> curveID (snd (ecdheKeyAgreement_generateServerKeyExchange toyGenerateKey toyMarshal
        nilKeyAgreementAuthentication_signParameters zero_ecdheKeyAgreement
        \<lparr>rand = [7], KexConfig = [], InsecureSkipVerify = False,
          curvePreferences = [CurveP384r1, CurveP256r1]\<rparr>
        \<lparr>PrivateKey = ecdsa_PrivateKey 1\<rparr>
        \<lparr>vers = 0x0303, random = [], supportedCurves = [CurveP256r1, Curve25519],
          signatureAndHashes = []\<rparr>
        \<lparr>serverRandom = []\<rparr>)) = CurveP256r1"
  using generateServerKeyExchange_server_preference
    [where config = "\<lparr>rand = [7], KexConfig = [], InsecureSkipVerify = False,
                      curvePreferences = [CurveP384r1]\<rparr>"
       and clientHello = "\<lparr>vers = 0x0303, random = [], supportedCurves = [Curve25519],
                           signatureAndHashes = []\<rparr>"
       and GenerateKey = toyGenerateKey and Marshal = toyMarshal
       and signParameters = nilKeyAgreementAuthentication_signParameters
       and ka = zero_ecdheKeyAgreement and cert = "\<lparr>PrivateKey = ecdsa_PrivateKey 1\<rparr>"
       and hello = "\<lparr>serverRandom = []\<rparr>"]
    generateServerKeyExchange_server_preference
    [where config = "\<lparr>rand = [7], KexConfig = [], InsecureSkipVerify = False,
                      curvePreferences = [CurveP384r1, CurveP256r1]\<rparr>"
       and clientHello = "\<lparr>vers = 0x0303, random = [], supportedCurves = [CurveP256r1, Curve25519],
                           signatureAndHashes = []\<rparr>"
       and GenerateKey = toyGenerateKey and Marshal = toyMarshal
       and signParameters = nilKeyAgreementAuthentication_signParameters
       and ka = zero_ecdheKeyAgreement and cert = "\<lparr>PrivateKey = ecdsa_PrivateKey 1\<rparr>"
       and hello = "\<lparr>serverRandom = []\<rparr>"]
  by (simp add: ecdheKeyAgreement_generateServerKeyExchange_def toyGenerateKey_def toyMarshal_def
      nilKeyAgreementAuthentication_signParameters_def zero_ecdheKeyAgreement_def ReadFull_def
      curveForCurveID_def curve_consts SetBytes_def Bytes_def natBytes_small
      serverECDHParams_def)

text \<open>
  C10: the value 0 of \<^verbatim>\<open>curveid\<close> means "no curve selected": when 0 is the only curve
  that both lists contain, the operation fails with "no supported elliptic curves offered"
  and leaves the state as it is, exactly as for disjoint lists, and an operation that
  returns a message never has negotiated the curve 0.
\<close>

theorem generateServerKeyExchange_zero_sentinel:
  "(set (curvePreferences config) \<inter> set (supportedCurves clientHello) = {0} \<longrightarrow>
      ecdheKeyAgreement_generateServerKeyExchange GenerateKey Marshal signParameters
        ka config cert clientHello hello = (Inl errNoCurves, ka))
   \<and> (set (curvePreferences config) \<inter> set (supportedCurves clientHello) = {} \<longrightarrow>
      ecdheKeyAgreement_generateServerKeyExchange GenerateKey Marshal signParameters
        ka config cert clientHello hello = (Inl errNoCurves, ka))
   \<and> (\<forall>skx. fst (ecdheKeyAgreement_generateServerKeyExchange GenerateKey Marshal
          signParameters ka config cert clientHello hello) = Inr skx \<longrightarrow>
        curveID (snd (ecdheKeyAgreement_generateServerKeyExchange GenerateKey Marshal
          signParameters ka config cert clientHello hello)) \<noteq> 0)"
proof (intro conjI allI impI)
  assume a: "set (curvePreferences config) \<inter> set (supportedCurves clientHello) = {0}"
  have "NextCandidate (curvePreferences config) (supportedCurves clientHello) = 0"
  proof (cases "find (\<lambda>c. c \<in> set (supportedCurves clientHello)) (curvePreferences config)")
    case None
    then show ?thesis by (simp add: NextCandidate_find)
  next
    case (Some c)
    then have "c \<in> set (curvePreferences config) \<inter> set (supportedCurves clientHello)"
      by (auto simp: find_Some_iff)
    with a have "c = 0" by simp
    with Some show ?thesis by (simp add: NextCandidate_find)
  qed
  then show "ecdheKeyAgreement_generateServerKeyExchange GenerateKey Marshal signParameters
        ka config cert clientHello hello = (Inl errNoCurves, ka)"
    by (rule generateServerKeyExchange_zero)
next
  assume "set (curvePreferences config) \<inter> set (supportedCurves clientHello) = {}"
  then have "NextCandidate (curvePreferences config) (supportedCurves clientHello) = 0"
    by (simp add: NextCandidate_find find_None_disjoint [symmetric])
  then show "ecdheKeyAgreement_generateServerKeyExchange GenerateKey Marshal signParameters
          ka config cert clientHello hello = (Inl errNoCurves, ka)"
    by (rule generateServerKeyExchange_zero)
next
  fix skx
  assume a: "fst (ecdheKeyAgreement_generateServerKeyExchange GenerateKey Marshal
          signParameters ka config cert clientHello hello) = Inr skx"
  then have nz: "NextCandidate (curvePreferences config) (supportedCurves clientHello) \<noteq> 0"
    by (rule generateServerKeyExchange_Inr)
  then show "curveID (snd (ecdheKeyAgreement_generateServerKeyExchange GenerateKey Marshal
          signParameters ka config cert clientHello hello)) \<noteq> 0"
    by (simp add: generateServerKeyExchange_curveID)
qed

theorem generateServerKeyExchange_zero_sentinel_witness:
  "set [0, CurveP384r1] \<inter> set [Curve25519, 0] = {0}
   \<and> ecdheKeyAgreement_generateServerKeyExchange toyGenerateKey toyMarshal
        nilKeyAgreementAuthentication_signParameters zero_ecdheKeyAgreement
        \<lparr>rand = [7], KexConfig = [], InsecureSkipVerify = False,
          curvePreferences = [0, CurveP384r1]\<rparr>
        \<lparr>PrivateKey = ecdsa_PrivateKey 1\<rparr>
        \<lparr>vers = 0x0303, random = [], supportedCurves = [Curve25519, 0], signatureAndHashes = []\<rparr>
        \<lparr>serverRandom = []\<rparr> = (Inl errNoCurves, zero_ecdheKeyAgreement)
   \<and> set [CurveP384r1] \<inter> set [Curve25519] = {}
   \<and> ecdheKeyAgreement_generateServerKeyExchange toyGenerateKey toyMarshal
        nilKeyAgreementAuthentication_signParameters zero_ecdheKeyAgreement
        \<lparr>rand = [7], KexConfig = [], InsecureSkipVerify = False, curvePreferences = [CurveP384r1]\<rparr>
        \<lparr>PrivateKey = ecdsa_PrivateKey 1\<rparr>
        \<lparr>vers = 0x0303, random = [], supportedCurves = [Curve25519], signatureAndHashes = []\<rparr>
        \<lparr>serverRandom = []\<rparr> = (Inl errNoCurves, zero_ecdheKeyAgreement)
   \<and> fst (ecdheKeyAgreement_generateServerKeyExchange toyGenerateKey toyMarshal
        nilKeyAgreementAuthentication_signParameters zero_ecdheKeyAgreement
        \<lparr>rand = [7], KexConfig = [], InsecureSkipVerify = False,
          curvePreferences = [Curve25519, 0]\<rparr>
        \<lparr>PrivateKey = ecdsa_PrivateKey 1\<rparr>
        \<lparr>vers = 0x0303, random = [], supportedCurves = [0, Curve25519], signatureAndHashes = []\<rparr>
        \<lparr>serverRandom = []\<rparr>) = Inr \<lparr>key = [3, 0, 29, 2, 4, 7], digest = []\<rparr>
   \<and> curveID (snd (ecdheKeyAgreement_generateServerKeyExchange toyGenerateKey toyMarshal
        nilKeyAgreementAuthentication_signParameters zero_ecdheKeyAgreement
        \<lparr>rand = [7], KexConfig = [], InsecureSkipVerify = False,
          curvePreferences = [Curve25519, 0]\<rparr>
        \<lparr>PrivateKey = ecdsa_PrivateKey 1\<rparr>
        \<lparr>vers = 0x0303, random = [], supportedCurves = [0, Curve25519], signatureAndHashes = []\<rparr>
        \<lparr>serverRandom = []\<rparr>)) \<noteq> 0"
  using generateServerKeyExchange_zero_sentinel
    [where config = "\<lparr>rand = [7], KexConfig = [], InsecureSkipVerify = False,
                      curvePreferences = [0, CurveP384r1]\<rparr>"
       and clientHello = "\<lparr>vers = 0x0303, random = [], supportedCurves = [Curve25519, 0],
                           signatureAndHashes = []\<rparr>"
       and GenerateKey = toyGenerateKey and Marshal = toyMarshal
       and signParameters = nilKeyAgreementAuthentication_signParameters
       and ka = zero_ecdheKeyAgreement and cert = "\<lparr>PrivateKey = ecdsa_PrivateKey 1\<rparr>"
       and hello = "\<lparr>serverRandom = []\<rparr>"]
    generateServerKeyExchange_zero_sentinel
    [where config = "\<lparr>rand = [7], KexConfig = [], InsecureSkipVerify = False,
                      curvePreferences = [CurveP384r1]\<rparr>"
       and clientHello = "\<lparr>vers = 0x0303, random = [], supportedCurves = [Curve25519],
                           signatureAndHashes = []\<rparr>"
       and GenerateKey = toyGenerateKey and Marshal = toyMarshal
       and signParameters = nilKeyAgreementAuthentication_signParameters
       and ka = zero_ecdheKeyAgreement and cert = "\<lparr>PrivateKey = ecdsa_PrivateKey 1\<rparr>"
       and hello = "\<lparr>serverRandom = []\<rparr>"]
    generateServerKeyExchange_zero_sentinel
    [where config = "\<lparr>rand = [7], KexConfig = [], InsecureSkipVerify = False,
                      curvePreferences = [Curve25519, 0]\<rparr>"
       and clientHello = "\<lparr>vers = 0x0303, random = [], supportedCurves = [0, Curve25519],
                           signatureAndHashes = []\<rparr>"
       and GenerateKey = toyGenerateKey and Marshal = toyMarshal
       and signParameters = nilKeyAgreementAuthentication_signParameters
       and ka = zero_ecdheKeyAgreement and cert = "\<lparr>PrivateKey = ecdsa_PrivateKey 1\<rparr>"
       and hello = "\<lparr>serverRandom = []\<rparr>"]
  by (simp add: ecdheKeyAgreement_generateServerKeyExchange_def toyGenerateKey_def toyMarshal_def
      nilKeyAgreementAuthentication_signParameters_def zero_ecdheKeyAgreement_def ReadFull_def
      curveForCurveID_def curve_consts SetBytes_def Bytes_def natBytes_small
      serverECDHParams_def)

subsection \<open>DHE: the client's public value\<close>

lemma Bytes_roundtrip: "SetBytes (Bytes x) = \<bar>x\<bar>"
  by (simp add: Bytes_def SetBytes_natBytes)

lemma Bytes_no_leading_zero: "Bytes x \<noteq> [] \<Longrightarrow> hd (Bytes x) \<noteq> 0"
  by (simp add: Bytes_def natBytes_no_leading_zero)

lemma Exp_nonneg: "0 \<le> y \<Longrightarrow> m \<noteq> 0 \<Longrightarrow> Exp x y m = Some (x ^ nat y mod \<bar>m\<bar>)"
  by (simp add: Exp_def)

lemma natBytes_numeral:
  "natBytes (numeral k) = natBytes (numeral k div 256) @ [of_nat (numeral k mod 256)]"
  by (subst natBytes.simps) simp

lemma natBytes_one: "natBytes (Suc 0) = [1]" "natBytes 1 = [1]"
  by (simp_all add: natBytes.simps [of 1] natBytes.simps [of "Suc 0"])

text \<open>
  C5: for \<^verbatim>\<open>dheKeyAgreement.processClientKeyExchange\<close> on a well-formed message (at least
  two bytes, and the 16-bit length prefix equal to the length of the rest), in a state that
  holds the prime \<open>p\<close> and a private exponent \<open>x \<ge> 0\<close>, the public value \<open>yTheirs\<close> read
  from the message is rejected with the invalid-ClientKeyExchange error exactly when
  \<open>yTheirs \<le> 0\<close> or \<open>yTheirs \<ge> p\<close>; otherwise the pre-master secret is \<open>yTheirs ^ x mod p\<close>
  in big-endian bytes with no length prefix and no leading zero byte, so it is not padded to
  the length of \<open>p\<close>.
\<close>

theorem dhe_processClientKeyExchange_range:
  assumes wire: "2 \<le> length (ciphertext ckx)"
      "be16 (ciphertext ckx ! 0) (ciphertext ckx ! 1) = length (ciphertext ckx) - 2"
    and st: "p ka = Some pv" "xOurs ka = Some xv" "0 \<le> xv"
  shows "fst (dheKeyAgreement_processClientKeyExchange ka config cert ckx) =
           (if SetBytes (drop 2 (ciphertext ckx)) \<le> 0 \<or> pv \<le> SetBytes (drop 2 (ciphertext ckx))
            then Inl errClientKeyExchange
            else Inr (Bytes (SetBytes (drop 2 (ciphertext ckx)) ^ nat xv mod pv)))
     \<and> (\<forall>pms. fst (dheKeyAgreement_processClientKeyExchange ka config cert ckx) = Inr pms \<longrightarrow>
           SetBytes pms = SetBytes (drop 2 (ciphertext ckx)) ^ nat xv mod pv
           \<and> (pms \<noteq> [] \<longrightarrow> hd pms \<noteq> 0))"
proof -
  let ?y = "SetBytes (drop 2 (ciphertext ckx))"
  have eq: "fst (dheKeyAgreement_processClientKeyExchange ka config cert ckx) =
           (if ?y \<le> 0 \<or> pv \<le> ?y then Inl errClientKeyExchange
            else Inr (Bytes (?y ^ nat xv mod pv)))"
    using assms
    by (auto simp: dheKeyAgreement_processClientKeyExchange_def Let_def Exp_nonneg)
  have nn: "\<not> (?y \<le> 0 \<or> pv \<le> ?y) \<Longrightarrow> 0 \<le> ?y ^ nat xv mod pv"
    by simp
  show ?thesis
    using eq nn by (auto simp: Bytes_roundtrip Bytes_no_leading_zero split: if_splits)
qed

theorem dhe_processClientKeyExchange_range_witness:
  "2 \<le> length (ciphertext \<lparr>ciphertext = [0, 1, 2]\<rparr>)
   \<and> be16 (ciphertext \<lparr>ciphertext = [0, 1, 2]\<rparr> ! 0) (ciphertext \<lparr>ciphertext = [0, 1, 2]\<rparr> ! 1)
       = length (ciphertext \<lparr>ciphertext = [0, 1, 2]\<rparr>) - 2
   \<and> p (zero_dheKeyAgreement\<lparr>p := Some 65537, xOurs := Some 15\<rparr>) = Some 65537
   \<and> xOurs (zero_dheKeyAgreement\<lparr>p := Some 65537, xOurs := Some 15\<rparr>) = Some 15
   \<and> fst (dheKeyAgreement_processClientKeyExchange
        (zero_dheKeyAgreement\<lparr>p := Some 65537, xOurs := Some 15\<rparr>)
        \<lparr>rand = [], KexConfig = [], InsecureSkipVerify = False, curvePreferences = []\<rparr>
        \<lparr>PrivateKey = ecdsa_PrivateKey 1\<rparr> \<lparr>ciphertext = [0, 1, 2]\<rparr>) = Inr [128, 0]
   \<and> length (Bytes 65537) = 3
   \<and> fst (dheKeyAgreement_processClientKeyExchange
        (zero_dheKeyAgreement\<lparr>p := Some 65537, xOurs := Some 15\<rparr>)
        \<lparr>rand = [], KexConfig = [], InsecureSkipVerify = False, curvePreferences = []\<rparr>
        \<lparr>PrivateKey = ecdsa_PrivateKey 1\<rparr> \<lparr>ciphertext = [0, 3, 1, 0, 1]\<rparr>)
       = Inl errClientKeyExchange"
  using dhe_processClientKeyExchange_range
    [where ckx = "\<lparr>ciphertext = [0, 1, 2]\<rparr>"
       and ka = "zero_dheKeyAgreement\<lparr>p := Some 65537, xOurs := Some 15\<rparr>"
       and pv = 65537 and xv = 15
       and config = "\<lparr>rand = [], KexConfig = [], InsecureSkipVerify = False, curvePreferences = []\<rparr>"
       and cert = "\<lparr>PrivateKey = ecdsa_PrivateKey 1\<rparr>"]
    dhe_processClientKeyExchange_range
    [where ckx = "\<lparr>ciphertext = [0, 3, 1, 0, 1]\<rparr>"
       and ka = "zero_dheKeyAgreement\<lparr>p := Some 65537, xOurs := Some 15\<rparr>"
       and pv = 65537 and xv = 15
       and config = "\<lparr>rand = [], KexConfig = [], InsecureSkipVerify = False, curvePreferences = []\<rparr>"
       and cert = "\<lparr>PrivateKey = ecdsa_PrivateKey 1\<rparr>"]
  by (simp add: be16_eq SetBytes_def Bytes_def natBytes_numeral natBytes_one
      zero_dheKeyAgreement_def)

subsection \<open>DHE: the server's parameters\<close>

lemma be16_less: "be16 a b < 65536"
proof -
  have "unat a < 2 ^ 8" "unat b < 2 ^ 8"
    using unsigned_less [of a] unsigned_less [of b] by simp_all
  then show ?thesis by (simp add: be16_eq)
qed

lemma put16_be16: "put16 (be16 a b) = [a, b]"
proof -
  have b: "unat b < 256" using unsigned_less [of b] by simp
  then have "(unat a * 256 + unat b) div 256 = unat a" by simp
  moreover have "(of_nat (unat a * 256 + unat b) :: byte) = b"
  proof -
    have z: "(256 :: byte) = 0" by simp
    have "a * 256 = a * 0" by (simp only: z)
    then show ?thesis by simp
  qed
  ultimately show ?thesis
    by (simp add: put16_def be16_eq drop_bit_eq_div)
qed

lemma split16: "2 \<le> length k \<Longrightarrow> k = put16 (be16 (k ! 0) (k ! 1)) @ drop 2 k"
  by (cases k; cases "tl k") (auto simp: put16_be16)

lemma be16_put16_append [simp]:
  "n < 65536 \<Longrightarrow> be16 ((put16 n @ xs) ! 0) ((put16 n @ xs) ! Suc 0) = n"
  using be16_put16 [of n] by (simp add: nth_append)

lemma drop_put16_append [simp]: "drop 2 (put16 n @ xs) = xs"
  by (simp add: put16_def)

lemma dhe_wellformed:
  assumes k: "key skx = serverDHParams pB gB yB @ sig"
    and len: "length pB < 65536" "length gB < 65536" "length yB < 65536"
    and rng: "0 < SetBytes yB" "SetBytes yB < SetBytes pB"
  shows "dheKeyAgreement_processServerKeyExchange verifyParameters ka config clientHello
           serverHello cert skx =
         (let (dg, verr) = verifyParameters config clientHello serverHello cert
                             (serverDHParams pB gB yB) sig;
              ka' = ka\<lparr>p := Some (SetBytes pB), g := Some (SetBytes gB),
                       yTheirs := Some (SetBytes yB), yServer := Some (SetBytes yB),
                       dheKeyAgreement.verifyError := verr\<rparr>
          in (if InsecureSkipVerify config then None else verr, ka', skx\<lparr>digest := dg\<rparr>))"
  using assms
  by (simp add: dheKeyAgreement_processServerKeyExchange_def serverDHParams_def Let_def
      split: prod.splits)


lemma take_as_append: "n \<le> length k \<Longrightarrow> k = take n k @ drop n k \<and> length (take n k) = n"
  by simp

lemma dhe_processServerKeyExchange_shapes:
  "((\<exists>pB gB yB sig. key skx = serverDHParams pB gB yB @ sig
        \<and> length pB < 65536 \<and> length gB < 65536 \<and> length yB < 65536
        \<and> 0 < SetBytes yB \<and> SetBytes yB < SetBytes pB)
    \<or> (\<exists>ka'. dheKeyAgreement_processServerKeyExchange verifyParameters ka config clientHello
                 serverHello cert skx = (Some errServerKeyExchange, ka', skx)
          \<and> (ka' = ka
              \<or> (\<exists>pv. ka' = ka\<lparr>p := Some pv\<rparr>)
              \<or> (\<exists>pv gv. ka' = ka\<lparr>p := Some pv, g := Some gv\<rparr>)
              \<or> (\<exists>pv gv yv. ka' = ka\<lparr>p := Some pv, g := Some gv, yTheirs := Some yv,
                                      yServer := Some yv\<rparr>))))
   \<and> (length (key skx) < 2 \<or> length (key skx) - 2 < be16 (key skx ! 0) (key skx ! 1) \<longrightarrow>
        dheKeyAgreement_processServerKeyExchange verifyParameters ka config clientHello
          serverHello cert skx = (Some errServerKeyExchange, ka, skx))
   \<and> (\<forall>pB rest. key skx = put16 (length pB) @ pB @ rest \<and> length pB < 65536
          \<and> (length rest < 2 \<or> length rest - 2 < be16 (rest ! 0) (rest ! 1)) \<longrightarrow>
        dheKeyAgreement_processServerKeyExchange verifyParameters ka config clientHello
          serverHello cert skx = (Some errServerKeyExchange, ka\<lparr>p := Some (SetBytes pB)\<rparr>, skx))"
proof (intro conjI allI impI)
  let ?k = "key skx"
  let ?R = "dheKeyAgreement_processServerKeyExchange verifyParameters ka config clientHello
                 serverHello cert skx"
  let ?bad = "\<lambda>r. \<exists>ka'. r = (Some errServerKeyExchange, ka', skx)
          \<and> (ka' = ka
              \<or> (\<exists>pv. ka' = ka\<lparr>p := Some pv\<rparr>)
              \<or> (\<exists>pv gv. ka' = ka\<lparr>p := Some pv, g := Some gv\<rparr>)
              \<or> (\<exists>pv gv yv. ka' = ka\<lparr>p := Some pv, g := Some gv, yTheirs := Some yv,
                                      yServer := Some yv\<rparr>))"
  let ?good = "\<exists>pB gB yB sig. ?k = serverDHParams pB gB yB @ sig
        \<and> length pB < 65536 \<and> length gB < 65536 \<and> length yB < 65536
        \<and> 0 < SetBytes yB \<and> SetBytes yB < SetBytes pB"
  show "?good \<or> ?bad ?R"
  proof (cases "?bad ?R")
    case True
    then show ?thesis by blast
  next
    case False
    define pLen where "pLen = be16 (?k ! 0) (?k ! 1)"
    define k1 where "k1 = drop 2 ?k"
    define pB where "pB = take pLen k1"
    define k2 where "k2 = drop pLen k1"
    define gLen where "gLen = be16 (k2 ! 0) (k2 ! 1)"
    define k3 where "k3 = drop 2 k2"
    define gB where "gB = take gLen k3"
    define k4 where "k4 = drop gLen k3"
    define yLen where "yLen = be16 (k4 ! 0) (k4 ! 1)"
    define k5 where "k5 = drop 2 k4"
    define yB where "yB = take yLen k5"
    define sig where "sig = drop yLen k5"
    note defs = pLen_def k1_def pB_def k2_def gLen_def k3_def gB_def k4_def yLen_def k5_def
      yB_def sig_def
    note unf = dheKeyAgreement_processServerKeyExchange_def Let_def defs
    have c1: "2 \<le> length ?k"
    proof (rule ccontr)
      assume "\<not> 2 \<le> length ?k"
      then have "?R = (Some errServerKeyExchange, ka, skx)" by (simp add: unf)
      with False show False by simp
    qed
    have c2: "pLen \<le> length k1"
    proof (rule ccontr)
      assume "\<not> pLen \<le> length k1"
      with c1 have "?R = (Some errServerKeyExchange, ka, skx)" by (simp add: unf)
      with False show False by simp
    qed
    have c3: "2 \<le> length k2"
    proof (rule ccontr)
      assume "\<not> 2 \<le> length k2"
      with c1 c2 have "?R = (Some errServerKeyExchange, ka\<lparr>p := Some (SetBytes pB)\<rparr>, skx)"
        by (simp add: unf)
      with False show False by auto
    qed
    have c4: "gLen \<le> length k3"
    proof (rule ccontr)
      assume "\<not> gLen \<le> length k3"
      with c1 c2 c3 have "?R = (Some errServerKeyExchange, ka\<lparr>p := Some (SetBytes pB)\<rparr>, skx)"
        by (simp add: unf)
      with False show False by auto
    qed
    have c5: "2 \<le> length k4"
    proof (rule ccontr)
      assume "\<not> 2 \<le> length k4"
      with c1 c2 c3 c4
      have "?R = (Some errServerKeyExchange,
                  ka\<lparr>p := Some (SetBytes pB), g := Some (SetBytes gB)\<rparr>, skx)"
        by (simp add: unf)
      with False show False by auto
    qed
    have c6: "yLen \<le> length k5"
    proof (rule ccontr)
      assume "\<not> yLen \<le> length k5"
      with c1 c2 c3 c4 c5
      have "?R = (Some errServerKeyExchange,
                  ka\<lparr>p := Some (SetBytes pB), g := Some (SetBytes gB)\<rparr>, skx)"
        by (simp add: unf)
      with False show False by auto
    qed
    have c7: "0 < SetBytes yB \<and> SetBytes yB < SetBytes pB"
    proof (rule ccontr)
      assume "\<not> (0 < SetBytes yB \<and> SetBytes yB < SetBytes pB)"
      with c1 c2 c3 c4 c5 c6
      have "?R = (Some errServerKeyExchange,
                  ka\<lparr>p := Some (SetBytes pB), g := Some (SetBytes gB),
                     yTheirs := Some (SetBytes yB), yServer := Some (SetBytes yB)\<rparr>, skx)"
        by (auto simp add: unf)
      then have "?bad ?R" by blast
      with False show False by simp
    qed
    have e1: "?k = put16 pLen @ k1" using split16 [OF c1] by (simp add: pLen_def k1_def)
    have e2: "k1 = pB @ k2" by (simp add: pB_def k2_def)
    have e3: "k2 = put16 gLen @ k3" using split16 [OF c3] by (simp add: gLen_def k3_def)
    have e4: "k3 = gB @ k4" by (simp add: gB_def k4_def)
    have e5: "k4 = put16 yLen @ k5" using split16 [OF c5] by (simp add: yLen_def k5_def)
    have e6: "k5 = yB @ sig" by (simp add: yB_def sig_def)
    have l: "length pB = pLen" "length gB = gLen" "length yB = yLen"
      using c2 c4 c6 by (simp_all add: pB_def gB_def yB_def)
    have "?k = serverDHParams pB gB yB @ sig"
      unfolding serverDHParams_def l
      using e1 e2 e3 e4 e5 e6 by simp
    moreover have "length pB < 65536" "length gB < 65536" "length yB < 65536"
      unfolding l by (simp_all add: pLen_def gLen_def yLen_def be16_less)
    ultimately show ?thesis using c7 by blast
  qed
next
  assume "length (key skx) < 2 \<or> length (key skx) - 2 < be16 (key skx ! 0) (key skx ! 1)"
  then show "dheKeyAgreement_processServerKeyExchange verifyParameters ka config clientHello
          serverHello cert skx = (Some errServerKeyExchange, ka, skx)"
    by (auto simp: dheKeyAgreement_processServerKeyExchange_def Let_def)
next
  fix pB rest
  assume "key skx = put16 (length pB) @ pB @ rest \<and> length pB < 65536
          \<and> (length rest < 2 \<or> length rest - 2 < be16 (rest ! 0) (rest ! 1))"
  then show "dheKeyAgreement_processServerKeyExchange verifyParameters ka config clientHello
          serverHello cert skx = (Some errServerKeyExchange, ka\<lparr>p := Some (SetBytes pB)\<rparr>, skx)"
    by (auto simp: dheKeyAgreement_processServerKeyExchange_def Let_def)
qed

lemma dhe_ys_truncated:
  assumes "key skx = put16 (length pB) @ pB @ put16 (length gB) @ gB @ rest"
    and "length pB < 65536" "length gB < 65536"
    and "length rest < 2 \<or> length rest - 2 < be16 (rest ! 0) (rest ! 1)"
  shows "dheKeyAgreement_processServerKeyExchange verifyParameters ka config clientHello
          serverHello cert skx =
         (Some errServerKeyExchange,
          ka\<lparr>p := Some (SetBytes pB), g := Some (SetBytes gB)\<rparr>, skx)"
  using assms
  by (auto simp: dheKeyAgreement_processServerKeyExchange_def Let_def)

lemma dhe_ys_range:
  assumes "key skx = serverDHParams pB gB yB @ sig"
    and "length pB < 65536" "length gB < 65536" "length yB < 65536"
    and "SetBytes yB \<le> 0 \<or> SetBytes pB \<le> SetBytes yB"
  shows "dheKeyAgreement_processServerKeyExchange verifyParameters ka config clientHello
          serverHello cert skx =
         (Some errServerKeyExchange,
          ka\<lparr>p := Some (SetBytes pB), g := Some (SetBytes gB),
             yTheirs := Some (SetBytes yB), yServer := Some (SetBytes yB)\<rparr>, skx)"
  using assms
  by (auto simp: dheKeyAgreement_processServerKeyExchange_def serverDHParams_def Let_def)

text \<open>
  C3 (amended): for \<^verbatim>\<open>dheKeyAgreement.processServerKeyExchange\<close>, every message that is
  not the serialisation of \<open>p\<close>, \<open>g\<close> and \<open>Ys\<close> with \<open>0 < Ys < p\<close> followed by a signature is
  answered with the invalid-ServerKeyExchange error, and the message and the fields
  \<^verbatim>\<open>verifyError\<close>, \<^verbatim>\<open>yOurs\<close>, \<^verbatim>\<open>xOurs\<close> and \<^verbatim>\<open>yClient\<close> stay as they are; but the fields
  parsed before the failure are already stored. A failure in the length or body of \<open>p\<close>
  leaves the state unchanged; a failure in the length or body of \<open>g\<close>, such as a truncated
  length field of \<open>g\<close>, leaves the state with the new \<open>p\<close>; a failure in the length or body
  of \<open>Ys\<close> leaves it with the new \<open>p\<close> and \<open>g\<close>; and a \<open>Ys\<close> that is out of range leaves it
  with the new \<open>p\<close> and \<open>g\<close> and with \<open>Ys\<close> in \<^verbatim>\<open>yTheirs\<close> and \<^verbatim>\<open>yServer\<close>.
\<close>

theorem dhe_processServerKeyExchange_malformed:
  "((\<exists>pB gB yB sig. key skx = serverDHParams pB gB yB @ sig
        \<and> length pB < 65536 \<and> length gB < 65536 \<and> length yB < 65536
        \<and> 0 < SetBytes yB \<and> SetBytes yB < SetBytes pB)
    \<or> (\<exists>ka'. dheKeyAgreement_processServerKeyExchange verifyParameters ka config clientHello
                 serverHello cert skx = (Some errServerKeyExchange, ka', skx)
          \<and> (ka' = ka
              \<or> (\<exists>pv. ka' = ka\<lparr>p := Some pv\<rparr>)
              \<or> (\<exists>pv gv. ka' = ka\<lparr>p := Some pv, g := Some gv\<rparr>)
              \<or> (\<exists>pv gv yv. ka' = ka\<lparr>p := Some pv, g := Some gv, yTheirs := Some yv,
                                      yServer := Some yv\<rparr>))))
   \<and> (length (key skx) < 2 \<or> length (key skx) - 2 < be16 (key skx ! 0) (key skx ! 1) \<longrightarrow>
        dheKeyAgreement_processServerKeyExchange verifyParameters ka config clientHello
          serverHello cert skx = (Some errServerKeyExchange, ka, skx))
   \<and> (key skx = put16 (length pB) @ pB @ rest \<and> length pB < 65536
          \<and> (length rest < 2 \<or> length rest - 2 < be16 (rest ! 0) (rest ! 1)) \<longrightarrow>
        dheKeyAgreement_processServerKeyExchange verifyParameters ka config clientHello
          serverHello cert skx = (Some errServerKeyExchange, ka\<lparr>p := Some (SetBytes pB)\<rparr>, skx))
   \<and> (key skx = put16 (length pB) @ pB @ put16 (length gB) @ gB @ rest
          \<and> length pB < 65536 \<and> length gB < 65536
          \<and> (length rest < 2 \<or> length rest - 2 < be16 (rest ! 0) (rest ! 1)) \<longrightarrow>
        dheKeyAgreement_processServerKeyExchange verifyParameters ka config clientHello
          serverHello cert skx =
          (Some errServerKeyExchange,
           ka\<lparr>p := Some (SetBytes pB), g := Some (SetBytes gB)\<rparr>, skx))
   \<and> (key skx = serverDHParams pB gB yB @ sig
          \<and> length pB < 65536 \<and> length gB < 65536 \<and> length yB < 65536
          \<and> (SetBytes yB \<le> 0 \<or> SetBytes pB \<le> SetBytes yB) \<longrightarrow>
        dheKeyAgreement_processServerKeyExchange verifyParameters ka config clientHello
          serverHello cert skx =
          (Some errServerKeyExchange,
           ka\<lparr>p := Some (SetBytes pB), g := Some (SetBytes gB),
              yTheirs := Some (SetBytes yB), yServer := Some (SetBytes yB)\<rparr>, skx))"
proof (intro conjI)
  note sh = dhe_processServerKeyExchange_shapes
    [of skx verifyParameters ka config clientHello serverHello cert]
  show "(\<exists>pB gB yB sig. key skx = serverDHParams pB gB yB @ sig
        \<and> length pB < 65536 \<and> length gB < 65536 \<and> length yB < 65536
        \<and> 0 < SetBytes yB \<and> SetBytes yB < SetBytes pB)
    \<or> (\<exists>ka'. dheKeyAgreement_processServerKeyExchange verifyParameters ka config clientHello
                 serverHello cert skx = (Some errServerKeyExchange, ka', skx)
          \<and> (ka' = ka
              \<or> (\<exists>pv. ka' = ka\<lparr>p := Some pv\<rparr>)
              \<or> (\<exists>pv gv. ka' = ka\<lparr>p := Some pv, g := Some gv\<rparr>)
              \<or> (\<exists>pv gv yv. ka' = ka\<lparr>p := Some pv, g := Some gv, yTheirs := Some yv,
                                      yServer := Some yv\<rparr>)))"
    by (rule sh [THEN conjunct1])
  show "length (key skx) < 2 \<or> length (key skx) - 2 < be16 (key skx ! 0) (key skx ! 1) \<longrightarrow>
        dheKeyAgreement_processServerKeyExchange verifyParameters ka config clientHello
          serverHello cert skx = (Some errServerKeyExchange, ka, skx)"
    by (rule sh [THEN conjunct2, THEN conjunct1])
  show "key skx = put16 (length pB) @ pB @ rest \<and> length pB < 65536
          \<and> (length rest < 2 \<or> length rest - 2 < be16 (rest ! 0) (rest ! 1)) \<longrightarrow>
        dheKeyAgreement_processServerKeyExchange verifyParameters ka config clientHello
          serverHello cert skx = (Some errServerKeyExchange, ka\<lparr>p := Some (SetBytes pB)\<rparr>, skx)"
    by (rule sh [THEN conjunct2, THEN conjunct2, THEN spec, THEN spec])
  show "key skx = put16 (length pB) @ pB @ put16 (length gB) @ gB @ rest
          \<and> length pB < 65536 \<and> length gB < 65536
          \<and> (length rest < 2 \<or> length rest - 2 < be16 (rest ! 0) (rest ! 1)) \<longrightarrow>
        dheKeyAgreement_processServerKeyExchange verifyParameters ka config clientHello
          serverHello cert skx =
          (Some errServerKeyExchange,
           ka\<lparr>p := Some (SetBytes pB), g := Some (SetBytes gB)\<rparr>, skx)"
    using dhe_ys_truncated [of skx pB gB rest] by blast
  show "key skx = serverDHParams pB gB yB @ sig
          \<and> length pB < 65536 \<and> length gB < 65536 \<and> length yB < 65536
          \<and> (SetBytes yB \<le> 0 \<or> SetBytes pB \<le> SetBytes yB) \<longrightarrow>
        dheKeyAgreement_processServerKeyExchange verifyParameters ka config clientHello
          serverHello cert skx =
          (Some errServerKeyExchange,
           ka\<lparr>p := Some (SetBytes pB), g := Some (SetBytes gB),
              yTheirs := Some (SetBytes yB), yServer := Some (SetBytes yB)\<rparr>, skx)"
    using dhe_ys_range [of skx pB gB yB sig] by blast
qed

theorem dhe_processServerKeyExchange_malformed_witness:
  "length (key \<lparr>key = [0], digest = []\<rparr>) < 2
   \<and> dheKeyAgreement_processServerKeyExchange nilKeyAgreementAuthentication_verifyParameters
       zero_dheKeyAgreement
       \<lparr>rand = [], KexConfig = [], InsecureSkipVerify = False, curvePreferences = []\<rparr>
       \<lparr>vers = 0x0303, random = [], supportedCurves = [], signatureAndHashes = []\<rparr>
       \<lparr>serverRandom = []\<rparr> \<lparr>PublicKey = dsa_PublicKey 1\<rparr>
       \<lparr>key = [0], digest = []\<rparr>
     = (Some errServerKeyExchange, zero_dheKeyAgreement, \<lparr>key = [0], digest = []\<rparr>)
   \<and> key \<lparr>key = [0, 1, 23, 0], digest = []\<rparr> = put16 (length [23 :: byte]) @ [23] @ [0]
   \<and> length [23 :: byte] < 65536 \<and> length [0 :: byte] < 2
   \<and> dheKeyAgreement_processServerKeyExchange nilKeyAgreementAuthentication_verifyParameters
       zero_dheKeyAgreement
       \<lparr>rand = [], KexConfig = [], InsecureSkipVerify = False, curvePreferences = []\<rparr>
       \<lparr>vers = 0x0303, random = [], supportedCurves = [], signatureAndHashes = []\<rparr>
       \<lparr>serverRandom = []\<rparr> \<lparr>PublicKey = dsa_PublicKey 1\<rparr>
       \<lparr>key = [0, 1, 23, 0], digest = []\<rparr>
     = (Some errServerKeyExchange, zero_dheKeyAgreement\<lparr>p := Some 23\<rparr>,
        \<lparr>key = [0, 1, 23, 0], digest = []\<rparr>)
   \<and> key \<lparr>key = [0, 1, 23, 0, 1, 5, 0], digest = []\<rparr>
       = put16 (length [23 :: byte]) @ [23] @ put16 (length [5 :: byte]) @ [5] @ [0]
   \<and> length [5 :: byte] < 65536
   \<and> dheKeyAgreement_processServerKeyExchange nilKeyAgreementAuthentication_verifyParameters
       zero_dheKeyAgreement
       \<lparr>rand = [], KexConfig = [], InsecureSkipVerify = False, curvePreferences = []\<rparr>
       \<lparr>vers = 0x0303, random = [], supportedCurves = [], signatureAndHashes = []\<rparr>
       \<lparr>serverRandom = []\<rparr> \<lparr>PublicKey = dsa_PublicKey 1\<rparr>
       \<lparr>key = [0, 1, 23, 0, 1, 5, 0], digest = []\<rparr>
     = (Some errServerKeyExchange, zero_dheKeyAgreement\<lparr>p := Some 23, g := Some 5\<rparr>,
        \<lparr>key = [0, 1, 23, 0, 1, 5, 0], digest = []\<rparr>)
   \<and> key \<lparr>key = [0, 1, 23, 0, 1, 5, 0, 1, 23, 9], digest = []\<rparr>
       = serverDHParams [23] [5] [23] @ [9]
   \<and> SetBytes [23] \<le> SetBytes [23]
   \<and> dheKeyAgreement_processServerKeyExchange nilKeyAgreementAuthentication_verifyParameters
       zero_dheKeyAgreement
       \<lparr>rand = [], KexConfig = [], InsecureSkipVerify = False, curvePreferences = []\<rparr>
       \<lparr>vers = 0x0303, random = [], supportedCurves = [], signatureAndHashes = []\<rparr>
       \<lparr>serverRandom = []\<rparr> \<lparr>PublicKey = dsa_PublicKey 1\<rparr>
       \<lparr>key = [0, 1, 23, 0, 1, 5, 0, 1, 23, 9], digest = []\<rparr>
     = (Some errServerKeyExchange,
        zero_dheKeyAgreement\<lparr>p := Some 23, g := Some 5, yTheirs := Some 23, yServer := Some 23\<rparr>,
        \<lparr>key = [0, 1, 23, 0, 1, 5, 0, 1, 23, 9], digest = []\<rparr>)"
  using dhe_processServerKeyExchange_malformed
    [where skx = "\<lparr>key = [0], digest = []\<rparr>"
       and verifyParameters = nilKeyAgreementAuthentication_verifyParameters
       and ka = zero_dheKeyAgreement
       and config = "\<lparr>rand = [], KexConfig = [], InsecureSkipVerify = False, curvePreferences = []\<rparr>"
       and clientHello = "\<lparr>vers = 0x0303, random = [], supportedCurves = [], signatureAndHashes = []\<rparr>"
       and serverHello = "\<lparr>serverRandom = []\<rparr>" and cert = "\<lparr>PublicKey = dsa_PublicKey 1\<rparr>"
       and pB = "[]" and gB = "[]" and yB = "[]" and rest = "[]" and sig = "[]"]
    dhe_processServerKeyExchange_malformed
    [where skx = "\<lparr>key = [0, 1, 23, 0], digest = []\<rparr>"
       and verifyParameters = nilKeyAgreementAuthentication_verifyParameters
       and ka = zero_dheKeyAgreement
       and config = "\<lparr>rand = [], KexConfig = [], InsecureSkipVerify = False, curvePreferences = []\<rparr>"
       and clientHello = "\<lparr>vers = 0x0303, random = [], supportedCurves = [], signatureAndHashes = []\<rparr>"
       and serverHello = "\<lparr>serverRandom = []\<rparr>" and cert = "\<lparr>PublicKey = dsa_PublicKey 1\<rparr>"
       and pB = "[23]" and gB = "[]" and yB = "[]" and rest = "[0]" and sig = "[]"]
    dhe_processServerKeyExchange_malformed
    [where skx = "\<lparr>key = [0, 1, 23, 0, 1, 5, 0], digest = []\<rparr>"
       and verifyParameters = nilKeyAgreementAuthentication_verifyParameters
       and ka = zero_dheKeyAgreement
       and config = "\<lparr>rand = [], KexConfig = [], InsecureSkipVerify = False, curvePreferences = []\<rparr>"
       and clientHello = "\<lparr>vers = 0x0303, random = [], supportedCurves = [], signatureAndHashes = []\<rparr>"
       and serverHello = "\<lparr>serverRandom = []\<rparr>" and cert = "\<lparr>PublicKey = dsa_PublicKey 1\<rparr>"
       and pB = "[23]" and gB = "[5]" and yB = "[]" and rest = "[0]" and sig = "[]"]
    dhe_processServerKeyExchange_malformed
    [where skx = "\<lparr>key = [0, 1, 23, 0, 1, 5, 0, 1, 23, 9], digest = []\<rparr>"
       and verifyParameters = nilKeyAgreementAuthentication_verifyParameters
       and ka = zero_dheKeyAgreement
       and config = "\<lparr>rand = [], KexConfig = [], InsecureSkipVerify = False, curvePreferences = []\<rparr>"
       and clientHello = "\<lparr>vers = 0x0303, random = [], supportedCurves = [], signatureAndHashes = []\<rparr>"
       and serverHello = "\<lparr>serverRandom = []\<rparr>" and cert = "\<lparr>PublicKey = dsa_PublicKey 1\<rparr>"
       and pB = "[23]" and gB = "[5]" and yB = "[23]" and rest = "[]" and sig = "[9]"]
  by (simp add: put16_def SetBytes_def serverDHParams_def)

text \<open>
  The claim as the specification states it, that a message with a truncated length field of
  \<open>g\<close> leaves the state unchanged, fails: after the message \<open>00 01 17 00\<close> the state
  holds \<open>p = 23\<close>.
\<close>

theorem dhe_processServerKeyExchange_truncated_g_counterexample:
  "dheKeyAgreement_processServerKeyExchange nilKeyAgreementAuthentication_verifyParameters
     zero_dheKeyAgreement
     \<lparr>rand = [], KexConfig = [], InsecureSkipVerify = False, curvePreferences = []\<rparr>
     \<lparr>vers = 0x0303, random = [], supportedCurves = [], signatureAndHashes = []\<rparr>
     \<lparr>serverRandom = []\<rparr> \<lparr>PublicKey = dsa_PublicKey 1\<rparr>
     \<lparr>key = [0, 1, 23, 0], digest = []\<rparr>
   = (Some errServerKeyExchange, zero_dheKeyAgreement\<lparr>p := Some 23\<rparr>,
      \<lparr>key = [0, 1, 23, 0], digest = []\<rparr>)
   \<and> p (zero_dheKeyAgreement\<lparr>p := Some 23\<rparr>) \<noteq> p zero_dheKeyAgreement"
  by (simp add: dheKeyAgreement_processServerKeyExchange_def be16_eq SetBytes_def
      zero_dheKeyAgreement_def)

subsection \<open>Verification of the server's parameters\<close>

lemma rsa_exponent: "foldl (\<lambda>e b. push_bit 8 e OR uint b) 0 bs = SetBytes bs"
proof (induction bs rule: rev_induct)
  case Nil
  then show ?case by (simp add: SetBytes_def)
next
  case (snoc b bs)
  have "push_bit 8 (SetBytes bs) AND uint b = 0"
    by (auto simp add: bit_eq_iff bit_simps dest: bit_imp_le_length)
  then have "push_bit 8 (SetBytes bs) + uint b = push_bit 8 (SetBytes bs) OR uint b"
    by (rule disjunctive_add_eq_or)
  with snoc show ?case by (simp add: SetBytes_append push_bit_eq_mult)
qed

lemma rsa_wellformed:
  assumes k: "key skx = serverRSAParams nB eB @ sig"
    and len: "length nB < 65536" "length eB \<le> 4"
    and eph: "ephemeral ka"
  shows "rsaKeyAgreement_processServerKeyExchange verifyParameters ka config clientHello
           serverHello cert skx =
         (let (dg, verr) = verifyParameters config clientHello serverHello cert
                             (serverRSAParams nB eB) sig;
              ka' = ka\<lparr>rsaKeyAgreement.publicKey := Some \<lparr>N = SetBytes nB, E = SetBytes eB\<rparr>,
                       rsaKeyAgreement.verifyError := verr\<rparr>
          in (if InsecureSkipVerify config then None else verr, ka', skx\<lparr>digest := dg\<rparr>))"
  using assms
  by (simp add: rsaKeyAgreement_processServerKeyExchange_def serverRSAParams_def Let_def
      rsa_exponent split: prod.splits)

lemma curveID_bytes:
  "push_bit 8 (ucast (ucast (drop_bit 8 c) :: byte)) OR ucast (ucast c :: byte) = (c :: CurveID)"
  by (rule bit_word_eqI) (auto simp: bit_simps)

lemma take_drop_4 [simp]:
  "take (4 + n) (a # b # c # d # xs) = a # b # c # d # take n xs"
  "drop (4 + n) (a # b # c # d # xs) = drop n xs"
  by (simp_all add: numeral_eq_Suc)

lemma ecdhe_wellformed:
  assumes k: "key skx = serverECDHParams curveid pub @ sig"
    and len: "length pub < 256"
    and cv: "curveForCurveID curveid = Some c"
    and um: "Unmarshal c pub = Some pk"
  shows "ecdheKeyAgreement_processServerKeyExchange Unmarshal verifyParameters ka config
           clientHello serverHello cert skx =
         (let (dg, verr) = verifyParameters config clientHello serverHello cert
                             (serverECDHParams curveid pub) sig;
              ka' = ka\<lparr>curveID := curveid, curve := Some c, serverPublicKey := Some pk,
                       ecdheKeyAgreement.verifyError := verr\<rparr>
          in (if InsecureSkipVerify config then None else verr, ka', skx\<lparr>digest := dg\<rparr>))"
proof -
  have l: "unat (of_nat (length pub) :: byte) = length pub"
    using len by (simp add: unat_of_nat take_bit_nat_eq_self)
  show ?thesis
    using assms
    by (simp add: ecdheKeyAgreement_processServerKeyExchange_def serverECDHParams_def Let_def
        curveID_bytes l split: prod.splits)
qed

text \<open>
  C7: for each variant (RSA in ephemeral mode, DHE, ECDHE), \<^verbatim>\<open>processServerKeyExchange\<close> on a
  message that parses (the serialised parameters of the variant followed by the signature
  bytes) stores the error that \<^verbatim>\<open>verifyParameters\<close> returns for the parameters and the
  signature in the field \<^verbatim>\<open>verifyError\<close> and does not return it directly: it returns nil
  when \<^verbatim>\<open>InsecureSkipVerify\<close> is set and the stored error otherwise. So a failed
  verification does not abort the handshake in insecure mode and is recorded all the same.
\<close>

theorem processServerKeyExchange_stores_verifyError:
  "(ephemeral rka \<and> key rskx = serverRSAParams nB eB @ rsig
      \<and> length nB < 65536 \<and> length eB \<le> 4 \<longrightarrow>
    (case rsaKeyAgreement_processServerKeyExchange verifyParameters rka config clientHello
            serverHello cert rskx of
       (err, ka', skx') \<Rightarrow>
         rsaKeyAgreement.verifyError ka' =
           snd (verifyParameters config clientHello serverHello cert (serverRSAParams nB eB) rsig)
         \<and> err = (if InsecureSkipVerify config then None else rsaKeyAgreement.verifyError ka')))
   \<and> (key dskx = serverDHParams pB gB yB @ dsig
      \<and> length pB < 65536 \<and> length gB < 65536 \<and> length yB < 65536
      \<and> 0 < SetBytes yB \<and> SetBytes yB < SetBytes pB \<longrightarrow>
    (case dheKeyAgreement_processServerKeyExchange verifyParameters dka config clientHello
            serverHello cert dskx of
       (err, ka', skx') \<Rightarrow>
         dheKeyAgreement.verifyError ka' =
           snd (verifyParameters config clientHello serverHello cert (serverDHParams pB gB yB) dsig)
         \<and> err = (if InsecureSkipVerify config then None else dheKeyAgreement.verifyError ka')))
   \<and> (key eskx = serverECDHParams curveid pub @ esig \<and> length pub < 256
      \<and> curveForCurveID curveid = Some c \<and> Unmarshal c pub = Some pk \<longrightarrow>
    (case ecdheKeyAgreement_processServerKeyExchange Unmarshal verifyParameters eka config
            clientHello serverHello cert eskx of
       (err, ka', skx') \<Rightarrow>
         ecdheKeyAgreement.verifyError ka' =
           snd (verifyParameters config clientHello serverHello cert
                  (serverECDHParams curveid pub) esig)
         \<and> err = (if InsecureSkipVerify config then None
                   else ecdheKeyAgreement.verifyError ka')))"
proof (intro conjI impI)
  assume "ephemeral rka \<and> key rskx = serverRSAParams nB eB @ rsig
      \<and> length nB < 65536 \<and> length eB \<le> 4"
  then show "case rsaKeyAgreement_processServerKeyExchange verifyParameters rka config clientHello
            serverHello cert rskx of
       (err, ka', skx') \<Rightarrow>
         rsaKeyAgreement.verifyError ka' =
           snd (verifyParameters config clientHello serverHello cert (serverRSAParams nB eB) rsig)
         \<and> err = (if InsecureSkipVerify config then None else rsaKeyAgreement.verifyError ka')"
    by (auto simp add: rsa_wellformed split: prod.splits)
next
  assume "key dskx = serverDHParams pB gB yB @ dsig
      \<and> length pB < 65536 \<and> length gB < 65536 \<and> length yB < 65536
      \<and> 0 < SetBytes yB \<and> SetBytes yB < SetBytes pB"
  then show "case dheKeyAgreement_processServerKeyExchange verifyParameters dka config clientHello
            serverHello cert dskx of
       (err, ka', skx') \<Rightarrow>
         dheKeyAgreement.verifyError ka' =
           snd (verifyParameters config clientHello serverHello cert (serverDHParams pB gB yB) dsig)
         \<and> err = (if InsecureSkipVerify config then None else dheKeyAgreement.verifyError ka')"
    by (auto simp add: dhe_wellformed split: prod.splits)
next
  assume "key eskx = serverECDHParams curveid pub @ esig \<and> length pub < 256
      \<and> curveForCurveID curveid = Some c \<and> Unmarshal c pub = Some pk"
  then show "case ecdheKeyAgreement_processServerKeyExchange Unmarshal verifyParameters eka config
            clientHello serverHello cert eskx of
       (err, ka', skx') \<Rightarrow>
         ecdheKeyAgreement.verifyError ka' =
           snd (verifyParameters config clientHello serverHello cert
                  (serverECDHParams curveid pub) esig)
         \<and> err = (if InsecureSkipVerify config then None
                   else ecdheKeyAgreement.verifyError ka')"
    by (auto simp add: ecdhe_wellformed split: prod.splits)
qed

theorem processServerKeyExchange_stores_verifyError_witness:
  "ephemeral (zero_rsaKeyAgreement\<lparr>ephemeral := True\<rparr>) \<and> key 
        \<lparr>key = [0, 1, 187, 0, 1, 3, 9], digest = []\<rparr> = serverRSAParams [187] [3] @ [9]
   \<and> length [187 :: byte] < 65536 \<and> length [3 :: byte] \<le> 4
   \<and> rsaKeyAgreement_processServerKeyExchange failingVerifyParameters (zero_rsaKeyAgreement\<lparr>ephemeral := True\<rparr>) 
        \<lparr>rand = [], KexConfig = [], InsecureSkipVerify = True, curvePreferences = []\<rparr> \<lparr>vers = 0x0303, random = [], supportedCurves = [], signatureAndHashes = []\<rparr>
        \<lparr>serverRandom = []\<rparr> \<lparr>PublicKey = dsa_PublicKey 1\<rparr> 
        \<lparr>key = [0, 1, 187, 0, 1, 3, 9], digest = []\<rparr>
       = (None, zero_rsaKeyAgreement\<lparr>ephemeral := True, rsaKeyAgreement.publicKey := Some \<lparr>N = 187, E = 3\<rparr>,
                     rsaKeyAgreement.verifyError := Some (libError ''crypto/rsa: verification error'')\<rparr>, 
        \<lparr>key = [0, 1, 187, 0, 1, 3, 9], digest = []\<rparr>)
   \<and> key 
        \<lparr>key = [0, 1, 23, 0, 1, 5, 0, 1, 8, 9], digest = []\<rparr> = serverDHParams [23] [5] [8] @ [9]
   \<and> 0 < SetBytes [8] \<and> SetBytes [8] < SetBytes [23]
   \<and> dheKeyAgreement_processServerKeyExchange failingVerifyParameters zero_dheKeyAgreement
        
        \<lparr>rand = [], KexConfig = [], InsecureSkipVerify = True, curvePreferences = []\<rparr> \<lparr>vers = 0x0303, random = [], supportedCurves = [], signatureAndHashes = []\<rparr>
        \<lparr>serverRandom = []\<rparr> \<lparr>PublicKey = dsa_PublicKey 1\<rparr> 
        \<lparr>key = [0, 1, 23, 0, 1, 5, 0, 1, 8, 9], digest = []\<rparr>
       = (None, zero_dheKeyAgreement\<lparr>p := Some 23, g := Some 5, yTheirs := Some 8,
                  yServer := Some 8, dheKeyAgreement.verifyError := Some (libError ''crypto/rsa: verification error'')\<rparr>, 
        \<lparr>key = [0, 1, 23, 0, 1, 5, 0, 1, 8, 9], digest = []\<rparr>)
   \<and> key 
        \<lparr>key = [3, 0, 29, 2, 4, 7, 9], digest = []\<rparr> = serverECDHParams Curve25519 [4, 7] @ [9] \<and> length [4 :: byte, 7] < 256
   \<and> curveForCurveID Curve25519 = Some X25519
   \<and> toyUnmarshal X25519 [4, 7] = Some \<lparr>X = Some 7, Y = None\<rparr>
   \<and> ecdheKeyAgreement_processServerKeyExchange toyUnmarshal failingVerifyParameters
        zero_ecdheKeyAgreement 
        \<lparr>rand = [], KexConfig = [], InsecureSkipVerify = True, curvePreferences = []\<rparr> \<lparr>vers = 0x0303, random = [], supportedCurves = [], signatureAndHashes = []\<rparr>
        \<lparr>serverRandom = []\<rparr> \<lparr>PublicKey = dsa_PublicKey 1\<rparr> 
        \<lparr>key = [3, 0, 29, 2, 4, 7, 9], digest = []\<rparr>
       = (None, zero_ecdheKeyAgreement\<lparr>curveID := Curve25519, curve := Some X25519,
                  serverPublicKey := Some \<lparr>X = Some 7, Y = None\<rparr>,
                  ecdheKeyAgreement.verifyError := Some (libError ''crypto/rsa: verification error'')\<rparr>, 
        \<lparr>key = [3, 0, 29, 2, 4, 7, 9], digest = []\<rparr>)"
  using processServerKeyExchange_stores_verifyError
    [where verifyParameters = failingVerifyParameters
       and config = "\<lparr>rand = [], KexConfig = [], InsecureSkipVerify = True, curvePreferences = []\<rparr>"
       and clientHello = "\<lparr>vers = 0x0303, random = [], supportedCurves = [], signatureAndHashes = []\<rparr>"
       and serverHello = "\<lparr>serverRandom = []\<rparr>" and cert = "\<lparr>PublicKey = dsa_PublicKey 1\<rparr>"
       and rka = "zero_rsaKeyAgreement\<lparr>ephemeral := True\<rparr>"
       and rskx = "\<lparr>key = [0, 1, 187, 0, 1, 3, 9], digest = []\<rparr>" and nB = "[187]" and eB = "[3]" and rsig = "[9]"]
    processServerKeyExchange_stores_verifyError
    [where verifyParameters = failingVerifyParameters
       and config = "\<lparr>rand = [], KexConfig = [], InsecureSkipVerify = True, curvePreferences = []\<rparr>"
       and clientHello = "\<lparr>vers = 0x0303, random = [], supportedCurves = [], signatureAndHashes = []\<rparr>"
       and serverHello = "\<lparr>serverRandom = []\<rparr>" and cert = "\<lparr>PublicKey = dsa_PublicKey 1\<rparr>"
       and dka = zero_dheKeyAgreement
       and dskx = "\<lparr>key = [0, 1, 23, 0, 1, 5, 0, 1, 8, 9], digest = []\<rparr>" and pB = "[23]" and gB = "[5]" and yB = "[8]" and dsig = "[9]"]
    processServerKeyExchange_stores_verifyError
    [where verifyParameters = failingVerifyParameters
       and config = "\<lparr>rand = [], KexConfig = [], InsecureSkipVerify = True, curvePreferences = []\<rparr>"
       and clientHello = "\<lparr>vers = 0x0303, random = [], supportedCurves = [], signatureAndHashes = []\<rparr>"
       and serverHello = "\<lparr>serverRandom = []\<rparr>" and cert = "\<lparr>PublicKey = dsa_PublicKey 1\<rparr>"
       and eka = zero_ecdheKeyAgreement and Unmarshal = toyUnmarshal
       and eskx = "\<lparr>key = [3, 0, 29, 2, 4, 7, 9], digest = []\<rparr>" and curveid = Curve25519 and pub = "[4, 7]" and esig = "[9]"
       and c = X25519 and pk = "\<lparr>X = Some 7, Y = None\<rparr>"]
  by (simp add: rsaKeyAgreement_processServerKeyExchange_def
      dheKeyAgreement_processServerKeyExchange_def ecdheKeyAgreement_processServerKeyExchange_def
      be16_eq serverRSAParams_def serverDHParams_def serverECDHParams_def put16_def
      failingVerifyParameters_def toyUnmarshal_def SetBytes_def curveForCurveID_def curve_consts
      zero_rsaKeyAgreement_def zero_dheKeyAgreement_def zero_ecdheKeyAgreement_def)

subsection \<open>RSA: the pre-master secret\<close>

lemma be16_version: "be16 (ucast (drop_bit 8 v)) (ucast v) = unat (v :: 16 word)"
proof -
  have v: "unat v < 65536" using unsigned_less [of v] by simp
  have a: "unat (ucast v :: byte) = unat v mod 256"
    by (simp add: unsigned_ucast_eq take_bit_eq_mod)
  have "unat (drop_bit 8 v) = unat v div 256"
    unfolding unat_drop_bit_eq by (simp add: drop_bit_eq_div)
  then have b: "unat (ucast (drop_bit 8 v) :: byte) = unat v div 256"
    using v by (simp add: unsigned_ucast_eq take_bit_eq_mod)
  show ?thesis by (simp add: be16_eq a b)
qed

lemma length_copy [simp]: "length (copy dst src) = length dst"
  by (simp add: copy_def)

lemma copy_Nil [simp]: "copy dst [] = dst"
  by (simp add: copy_def)

lemma copy_same_length: "length src = length dst \<Longrightarrow> copy dst src = src"
  by (simp add: copy_def)

lemma ReadFull_Inr: "n \<le> length r \<Longrightarrow> ReadFull r n = Inr (take n r, drop n r)"
  by (simp add: ReadFull_def)

lemma ReadFull_Inl: "length r < n \<Longrightarrow> ReadFull r n = Inl (if r = [] then EOF else ErrUnexpectedEOF)"
  by (simp add: ReadFull_def)

lemma premaster_prefix:
  "take 2 ((replicate 48 (0 :: byte))[0 := a, 1 := b]) = [a, b]"
  by (simp add: numeral_eq_Suc)

lemma rsa_generateClientKeyExchange_unfold:
  "rsaKeyAgreement_generateClientKeyExchange Encrypt ka config clientHello cert =
     (case ReadFull (rand config) 46 of
        Inl err \<Rightarrow> Inl err
      | Inr (rnd, r) \<Rightarrow>
          (case (case rsaKeyAgreement.publicKey ka of
                   Some k \<Rightarrow> Inr k
                 | None \<Rightarrow>
                     (case PublicKey cert of
                        rsa_PublicKey k \<Rightarrow> Inr k
                      | _ \<Rightarrow> Inl errClientKeyExchange)) of
             Inl e \<Rightarrow> Inl e
           | Inr k \<Rightarrow>
               (case Encrypt r k
                       ([ucast (drop_bit 8 (vers clientHello)), ucast (vers clientHello)] @ rnd) of
                  Inl err \<Rightarrow> Inl err
                | Inr encrypted \<Rightarrow>
                    Inr ([ucast (drop_bit 8 (vers clientHello)), ucast (vers clientHello)] @ rnd,
                         \<lparr>ciphertext =
                            (if version ka \<noteq> VersionSSL30
                             then put16 (length encrypted) @ encrypted
                             else encrypted)\<rparr>))))"
  unfolding rsaKeyAgreement_generateClientKeyExchange_def Let_def premaster_prefix
  by (simp split: sum.splits prod.splits)

text \<open>
  C9: \<^verbatim>\<open>rsaKeyAgreement.generateClientKeyExchange\<close> returns a pre-master secret of 48 bytes
  whose first two bytes are \<^verbatim>\<open>clientHello.vers\<close> in big-endian order and whose other 46 bytes
  are the bytes read from the reader of the configuration; the ciphertext of the message is
  the encryption of that buffer under the server's public key, after its 16-bit big-endian
  length exactly when the negotiated version is not SSL 3.0. The operation returns them
  whenever the reader yields 46 bytes, a public key is at hand and the encryption succeeds.
\<close>

theorem rsa_generateClientKeyExchange_premaster:
  "(46 \<le> length (rand config)
      \<and> (rsaKeyAgreement.publicKey ka = Some pk
          \<or> rsaKeyAgreement.publicKey ka = None \<and> PublicKey cert = rsa_PublicKey pk)
      \<and> Encrypt (drop 46 (rand config)) pk
           ([ucast (drop_bit 8 (vers clientHello)), ucast (vers clientHello)]
              @ take 46 (rand config)) = Inr encrypted \<longrightarrow>
    rsaKeyAgreement_generateClientKeyExchange Encrypt ka config clientHello cert =
      Inr ([ucast (drop_bit 8 (vers clientHello)), ucast (vers clientHello)]
             @ take 46 (rand config),
           \<lparr>ciphertext = (if version ka \<noteq> VersionSSL30
                           then put16 (length encrypted) @ encrypted else encrypted)\<rparr>))
   \<and> (\<forall>pms ckx.
        rsaKeyAgreement_generateClientKeyExchange Encrypt ka config clientHello cert =
          Inr (pms, ckx) \<longrightarrow>
        length pms = 48
        \<and> be16 (pms ! 0) (pms ! 1) = unat (vers clientHello)
        \<and> drop 2 pms = take 46 (rand config)
        \<and> (\<exists>k enc. Encrypt (drop 46 (rand config)) k pms = Inr enc
              \<and> ciphertext ckx = (if version ka \<noteq> VersionSSL30
                                   then put16 (length enc) @ enc else enc)
              \<and> (length enc < 65536 \<longrightarrow>
                    be16 (put16 (length enc) ! 0) (put16 (length enc) ! 1) = length enc)))"
proof -
  let ?pms = "[ucast (drop_bit 8 (vers clientHello)), ucast (vers clientHello)]
                @ take 46 (rand config)"
  have A: "rsaKeyAgreement_generateClientKeyExchange Encrypt ka config clientHello cert =
      Inr (?pms, \<lparr>ciphertext = (if version ka \<noteq> VersionSSL30
                           then put16 (length encrypted) @ encrypted else encrypted)\<rparr>)"
    if "46 \<le> length (rand config)
      \<and> (rsaKeyAgreement.publicKey ka = Some pk
          \<or> rsaKeyAgreement.publicKey ka = None \<and> PublicKey cert = rsa_PublicKey pk)
      \<and> Encrypt (drop 46 (rand config)) pk ?pms = Inr encrypted"
    using that by (auto simp: rsa_generateClientKeyExchange_unfold ReadFull_Inr)
  have B: "length pms = 48
        \<and> be16 (pms ! 0) (pms ! 1) = unat (vers clientHello)
        \<and> drop 2 pms = take 46 (rand config)
        \<and> (\<exists>k enc. Encrypt (drop 46 (rand config)) k pms = Inr enc
              \<and> ciphertext ckx = (if version ka \<noteq> VersionSSL30
                                   then put16 (length enc) @ enc else enc)
              \<and> (length enc < 65536 \<longrightarrow>
                    be16 (put16 (length enc) ! 0) (put16 (length enc) ! 1) = length enc))"
    if a: "rsaKeyAgreement_generateClientKeyExchange Encrypt ka config clientHello cert =
          Inr (pms, ckx)" for pms ckx
  proof -
    have r: "46 \<le> length (rand config)"
      using a by (auto simp: rsa_generateClientKeyExchange_unfold ReadFull_def split: if_splits)
    have pms: "pms = ?pms"
      using a r
      by (auto simp: rsa_generateClientKeyExchange_unfold ReadFull_Inr
          split: option.splits sum.splits cryptoPublicKey.splits)
    have e: "\<exists>k enc. Encrypt (drop 46 (rand config)) k pms = Inr enc
              \<and> ciphertext ckx = (if version ka \<noteq> VersionSSL30
                                   then put16 (length enc) @ enc else enc)"
      using a r
      by (simp add: rsa_generateClientKeyExchange_unfold ReadFull_Inr
          split: option.splits sum.splits cryptoPublicKey.splits) force+
    have "length pms = 48" using r by (simp add: pms)
    moreover have "be16 (pms ! 0) (pms ! 1) = unat (vers clientHello)"
      by (simp add: pms be16_version)
    moreover have "drop 2 pms = take 46 (rand config)" by (simp add: pms)
    ultimately show ?thesis using e be16_put16 by blast
  qed
  show ?thesis using A B by blast
qed


theorem rsa_generateClientKeyExchange_premaster_witness:
  "46 \<le> length (rand 
        \<lparr>rand = replicate 46 7, KexConfig = [], InsecureSkipVerify = False, curvePreferences = []\<rparr>)
   \<and> rsaKeyAgreement.publicKey (zero_rsaKeyAgreement\<lparr>version := 0x0303\<rparr>) = None
   \<and> PublicKey \<lparr>PublicKey = rsa_PublicKey \<lparr>N = 187, E = 3\<rparr>\<rparr> = rsa_PublicKey \<lparr>N = 187, E = 3\<rparr>
   \<and> toyEncrypt (drop 46 (rand 
        \<lparr>rand = replicate 46 7, KexConfig = [], InsecureSkipVerify = False, curvePreferences = []\<rparr>)) \<lparr>N = 187, E = 3\<rparr> ([3, 3] @ replicate 46 7) = Inr (map (\<lambda>b. NOT b) ([3, 3] @ replicate 46 7))
   \<and> rsaKeyAgreement_generateClientKeyExchange toyEncrypt
        (zero_rsaKeyAgreement\<lparr>version := 0x0303\<rparr>)
        \<lparr>rand = replicate 46 7, KexConfig = [], InsecureSkipVerify = False, curvePreferences = []\<rparr>
        \<lparr>vers = 0x0303, random = [], supportedCurves = [], signatureAndHashes = []\<rparr>
        \<lparr>PublicKey = rsa_PublicKey \<lparr>N = 187, E = 3\<rparr>\<rparr> = Inr ([3, 3] @ replicate 46 7, \<lparr>ciphertext = put16 48 @ map (\<lambda>b. NOT b) ([3, 3] @ replicate 46 7)\<rparr>)
   \<and> put16 48 = [0, 48]
   \<and> rsaKeyAgreement_generateClientKeyExchange toyEncrypt
        (zero_rsaKeyAgreement\<lparr>version := VersionSSL30\<rparr>)
        \<lparr>rand = replicate 46 7, KexConfig = [], InsecureSkipVerify = False, curvePreferences = []\<rparr>
        \<lparr>vers = 0x0303, random = [], supportedCurves = [], signatureAndHashes = []\<rparr>
        \<lparr>PublicKey = rsa_PublicKey \<lparr>N = 187, E = 3\<rparr>\<rparr> = Inr ([3, 3] @ replicate 46 7, \<lparr>ciphertext = map (\<lambda>b. NOT b) ([3, 3] @ replicate 46 7)\<rparr>)
   \<and> length ([3, 3] @ replicate 46 7) = 48 \<and> be16 (([3, 3] @ replicate 46 7) ! 0) (([3, 3] @ replicate 46 7) ! 1) = unat (0x0303 :: 16 word)"
  using rsa_generateClientKeyExchange_premaster
    [where Encrypt = toyEncrypt and ka = "zero_rsaKeyAgreement\<lparr>version := 0x0303\<rparr>"
       and config = "\<lparr>rand = replicate 46 7, KexConfig = [], InsecureSkipVerify = False, curvePreferences = []\<rparr>"
       and clientHello = "\<lparr>vers = 0x0303, random = [], supportedCurves = [], signatureAndHashes = []\<rparr>"
       and cert = "\<lparr>PublicKey = rsa_PublicKey \<lparr>N = 187, E = 3\<rparr>\<rparr>"
       and pk = "\<lparr>N = 187, E = 3\<rparr>"
       and encrypted = "map (\<lambda>b. NOT b) ([3, 3] @ replicate 46 7)"]
    rsa_generateClientKeyExchange_premaster
    [where Encrypt = toyEncrypt and ka = "zero_rsaKeyAgreement\<lparr>version := VersionSSL30\<rparr>"
       and config = "\<lparr>rand = replicate 46 7, KexConfig = [], InsecureSkipVerify = False, curvePreferences = []\<rparr>"
       and clientHello = "\<lparr>vers = 0x0303, random = [], supportedCurves = [], signatureAndHashes = []\<rparr>"
       and cert = "\<lparr>PublicKey = rsa_PublicKey \<lparr>N = 187, E = 3\<rparr>\<rparr>"
       and pk = "\<lparr>N = 187, E = 3\<rparr>"
       and encrypted = "map (\<lambda>b. NOT b) ([3, 3] @ replicate 46 7)"]
  by (simp add: toyEncrypt_def zero_rsaKeyAgreement_def VersionSSL30_def put16_def be16_eq
      drop_bit_eq_div)

lemma rsa_processClientKeyExchange_unfold:
  "46 \<le> length (rand config) \<Longrightarrow> 2 \<le> length (ciphertext ckx) \<Longrightarrow>
   version ka = VersionSSL30
     \<or> be16 (ciphertext ckx ! 0) (ciphertext ckx ! 1) = length (ciphertext ckx) - 2 \<Longrightarrow>
   rsaKeyAgreement.privateKey ka = Some k
     \<or> rsaKeyAgreement.privateKey ka = None \<and> PrivateKey cert = rsa_PrivateKey k \<Longrightarrow>
   rsaKeyAgreement_processClientKeyExchange Decrypt ka config cert ckx =
     (case Decrypt (drop 46 (rand config)) k
             (if version ka \<noteq> VersionSSL30 then drop 2 (ciphertext ckx) else ciphertext ckx)
             (0 # 0 # take 46 (rand config)) of
        Inl err \<Rightarrow> Inl err
      | Inr m \<Rightarrow> Inr (copy (0 # 0 # take 46 (rand config)) m))"
  by (auto simp: rsaKeyAgreement_processClientKeyExchange_def ReadFull_Inr Let_def)

text \<open>
  C1 (amended): for \<^verbatim>\<open>rsaKeyAgreement.processClientKeyExchange\<close>, whenever the reader of
  the configuration yields 46 bytes, the wire-format checks pass (at least two bytes, and
  for versions other than SSL 3.0 the 16-bit length prefix equal to the length of the
  rest), a private key is at hand and the decryption primitive returns no error, the
  operation returns a pre-master secret of 48 bytes and no error; when the primitive leaves
  the buffer as it is, which is what it does on a padding failure, the secret is two zero
  bytes followed by the 46 bytes drawn from the reader. An error that the primitive
  returns, as it does for a ciphertext of the wrong length, is returned to the caller, and
  so is the error of the read when the reader yields fewer than 46 bytes: \<open>EOF\<close> when it
  yields none, \<open>ErrUnexpectedEOF\<close> when it yields some.
\<close>

theorem rsa_processClientKeyExchange_fallback:
  "(46 \<le> length (rand config) \<and> 2 \<le> length (ciphertext ckx)
      \<and> (version ka = VersionSSL30
           \<or> be16 (ciphertext ckx ! 0) (ciphertext ckx ! 1) = length (ciphertext ckx) - 2)
      \<and> (rsaKeyAgreement.privateKey ka = Some k
           \<or> rsaKeyAgreement.privateKey ka = None \<and> PrivateKey cert = rsa_PrivateKey k) \<longrightarrow>
      (\<forall>m. Decrypt (drop 46 (rand config)) k
               (if version ka \<noteq> VersionSSL30 then drop 2 (ciphertext ckx) else ciphertext ckx)
               (0 # 0 # take 46 (rand config)) = Inr m \<longrightarrow>
            (\<exists>pms. rsaKeyAgreement_processClientKeyExchange Decrypt ka config cert ckx = Inr pms
               \<and> length pms = 48
               \<and> (m = [] \<longrightarrow> pms = 0 # 0 # take 46 (rand config)
                              \<and> drop 2 pms = take 46 (rand config))
               \<and> (length m = 48 \<longrightarrow> pms = m)))
       \<and> (\<forall>e. Decrypt (drop 46 (rand config)) k
               (if version ka \<noteq> VersionSSL30 then drop 2 (ciphertext ckx) else ciphertext ckx)
               (0 # 0 # take 46 (rand config)) = Inl e \<longrightarrow>
            rsaKeyAgreement_processClientKeyExchange Decrypt ka config cert ckx = Inl e))
   \<and> (length (rand config) < 46 \<longrightarrow>
        rsaKeyAgreement_processClientKeyExchange Decrypt ka config cert ckx =
          Inl (if rand config = [] then EOF else ErrUnexpectedEOF))"
proof -
  have A: "(\<forall>m. Decrypt (drop 46 (rand config)) k
               (if version ka \<noteq> VersionSSL30 then drop 2 (ciphertext ckx) else ciphertext ckx)
               (0 # 0 # take 46 (rand config)) = Inr m \<longrightarrow>
            (\<exists>pms. rsaKeyAgreement_processClientKeyExchange Decrypt ka config cert ckx = Inr pms
               \<and> length pms = 48
               \<and> (m = [] \<longrightarrow> pms = 0 # 0 # take 46 (rand config)
                              \<and> drop 2 pms = take 46 (rand config))
               \<and> (length m = 48 \<longrightarrow> pms = m)))
       \<and> (\<forall>e. Decrypt (drop 46 (rand config)) k
               (if version ka \<noteq> VersionSSL30 then drop 2 (ciphertext ckx) else ciphertext ckx)
               (0 # 0 # take 46 (rand config)) = Inl e \<longrightarrow>
            rsaKeyAgreement_processClientKeyExchange Decrypt ka config cert ckx = Inl e)"
    if rng: "46 \<le> length (rand config)" and w1: "2 \<le> length (ciphertext ckx)"
      and w2: "version ka = VersionSSL30
           \<or> be16 (ciphertext ckx ! 0) (ciphertext ckx ! 1) = length (ciphertext ckx) - 2"
      and key: "rsaKeyAgreement.privateKey ka = Some k
           \<or> rsaKeyAgreement.privateKey ka = None \<and> PrivateKey cert = rsa_PrivateKey k"
    using rng
    by (auto simp: rsa_processClientKeyExchange_unfold [OF rng w1 w2 key] copy_same_length)
  have B: "rsaKeyAgreement_processClientKeyExchange Decrypt ka config cert ckx =
          Inl (if rand config = [] then EOF else ErrUnexpectedEOF)"
    if "length (rand config) < 46"
    using that by (simp add: rsaKeyAgreement_processClientKeyExchange_def ReadFull_Inl)
  show ?thesis using A B by blast
qed

theorem rsa_processClientKeyExchange_fallback_witness:
  "46 \<le> length (rand 
        \<lparr>rand = replicate 46 7, KexConfig = [], InsecureSkipVerify = False, curvePreferences = []\<rparr>)
   \<and> 2 \<le> length (0 # 48 # 5 # replicate 47 0) \<and> be16 ((0 # 48 # 5 # replicate 47 0) ! 0) ((0 # 48 # 5 # replicate 47 0) ! 1) = length (0 # 48 # 5 # replicate 47 0) - 2
   \<and> rsaKeyAgreement.privateKey (zero_rsaKeyAgreement\<lparr>version := 0x0303\<rparr>) = None
   \<and> toyDecrypt [] 
        \<lparr>N = 187, E = 3, rsaPrivateKey.D = 107\<rparr> (drop 2 (0 # 48 # 5 # replicate 47 0)) (0 # 0 # replicate 46 7) = Inr []
   \<and> rsaKeyAgreement_processClientKeyExchange toyDecrypt
        (zero_rsaKeyAgreement\<lparr>version := 0x0303\<rparr>)
        \<lparr>rand = replicate 46 7, KexConfig = [], InsecureSkipVerify = False, curvePreferences = []\<rparr>
        \<lparr>PrivateKey = rsa_PrivateKey \<lparr>N = 187, E = 3, rsaPrivateKey.D = 107\<rparr>\<rparr>
        \<lparr>ciphertext = 0 # 48 # 5 # replicate 47 0\<rparr> = Inr (0 # 0 # replicate 46 7)
   \<and> toyDecrypt [] 
        \<lparr>N = 187, E = 3, rsaPrivateKey.D = 107\<rparr> (drop 2 (0 # 48 # 2 # replicate 47 0)) (0 # 0 # replicate 46 7) = Inr (map (\<lambda>b. NOT b) (2 # replicate 47 0))
   \<and> rsaKeyAgreement_processClientKeyExchange toyDecrypt
        (zero_rsaKeyAgreement\<lparr>version := 0x0303\<rparr>)
        \<lparr>rand = replicate 46 7, KexConfig = [], InsecureSkipVerify = False, curvePreferences = []\<rparr>
        \<lparr>PrivateKey = rsa_PrivateKey \<lparr>N = 187, E = 3, rsaPrivateKey.D = 107\<rparr>\<rparr>
        \<lparr>ciphertext = 0 # 48 # 2 # replicate 47 0\<rparr> = Inr (map (\<lambda>b. NOT b) (2 # replicate 47 0))
   \<and> toyDecrypt [] 
        \<lparr>N = 187, E = 3, rsaPrivateKey.D = 107\<rparr> (drop 2 [0, 1, 5]) (0 # 0 # replicate 46 7)
       = Inl (libError ''crypto/rsa: decryption error'')
   \<and> rsaKeyAgreement_processClientKeyExchange toyDecrypt
        (zero_rsaKeyAgreement\<lparr>version := 0x0303\<rparr>)
        \<lparr>rand = replicate 46 7, KexConfig = [], InsecureSkipVerify = False, curvePreferences = []\<rparr>
        \<lparr>PrivateKey = rsa_PrivateKey \<lparr>N = 187, E = 3, rsaPrivateKey.D = 107\<rparr>\<rparr>
        \<lparr>ciphertext = [0, 1, 5]\<rparr> = Inl (libError ''crypto/rsa: decryption error'')
   \<and> length (rand \<lparr>rand = [7], KexConfig = [], InsecureSkipVerify = False, curvePreferences = []\<rparr>) < 46
   \<and> rsaKeyAgreement_processClientKeyExchange toyDecrypt
        (zero_rsaKeyAgreement\<lparr>version := 0x0303\<rparr>)
        \<lparr>rand = [7], KexConfig = [], InsecureSkipVerify = False, curvePreferences = []\<rparr>
        \<lparr>PrivateKey = rsa_PrivateKey \<lparr>N = 187, E = 3, rsaPrivateKey.D = 107\<rparr>\<rparr>
        \<lparr>ciphertext = 0 # 48 # 2 # replicate 47 0\<rparr> = Inl ErrUnexpectedEOF"
  using rsa_processClientKeyExchange_fallback
    [where Decrypt = toyDecrypt and ka = "zero_rsaKeyAgreement\<lparr>version := 0x0303\<rparr>"
       and config = "\<lparr>rand = replicate 46 7, KexConfig = [], InsecureSkipVerify = False, curvePreferences = []\<rparr>"
       and cert = "\<lparr>PrivateKey = rsa_PrivateKey \<lparr>N = 187, E = 3, rsaPrivateKey.D = 107\<rparr>\<rparr>"
       and k = "\<lparr>N = 187, E = 3, rsaPrivateKey.D = 107\<rparr>"
       and ckx = "\<lparr>ciphertext = 0 # 48 # 5 # replicate 47 0\<rparr>"]
    rsa_processClientKeyExchange_fallback
    [where Decrypt = toyDecrypt and ka = "zero_rsaKeyAgreement\<lparr>version := 0x0303\<rparr>"
       and config = "\<lparr>rand = replicate 46 7, KexConfig = [], InsecureSkipVerify = False, curvePreferences = []\<rparr>"
       and cert = "\<lparr>PrivateKey = rsa_PrivateKey \<lparr>N = 187, E = 3, rsaPrivateKey.D = 107\<rparr>\<rparr>"
       and k = "\<lparr>N = 187, E = 3, rsaPrivateKey.D = 107\<rparr>"
       and ckx = "\<lparr>ciphertext = 0 # 48 # 2 # replicate 47 0\<rparr>"]
    rsa_processClientKeyExchange_fallback
    [where Decrypt = toyDecrypt and ka = "zero_rsaKeyAgreement\<lparr>version := 0x0303\<rparr>"
       and config = "\<lparr>rand = replicate 46 7, KexConfig = [], InsecureSkipVerify = False, curvePreferences = []\<rparr>"
       and cert = "\<lparr>PrivateKey = rsa_PrivateKey \<lparr>N = 187, E = 3, rsaPrivateKey.D = 107\<rparr>\<rparr>"
       and k = "\<lparr>N = 187, E = 3, rsaPrivateKey.D = 107\<rparr>"
       and ckx = "\<lparr>ciphertext = [0, 1, 5]\<rparr>"]
    rsa_processClientKeyExchange_fallback
    [where Decrypt = toyDecrypt and ka = "zero_rsaKeyAgreement\<lparr>version := 0x0303\<rparr>"
       and config = "\<lparr>rand = [7], KexConfig = [], InsecureSkipVerify = False, curvePreferences = []\<rparr>"
       and cert = "\<lparr>PrivateKey = rsa_PrivateKey \<lparr>N = 187, E = 3, rsaPrivateKey.D = 107\<rparr>\<rparr>"
       and k = "\<lparr>N = 187, E = 3, rsaPrivateKey.D = 107\<rparr>"
       and ckx = "\<lparr>ciphertext = 0 # 48 # 2 # replicate 47 0\<rparr>"]
  by (simp add: toyDecrypt_def zero_rsaKeyAgreement_def VersionSSL30_def be16_eq)

text \<open>
  The claim as the specification states it, that the operation returns a 48-byte secret and
  no error whenever the wire-format checks pass, fails: with a reader that is exhausted the
  operation returns the error of the read, and with a ciphertext that the primitive refuses
  it returns the error of the primitive.
\<close>

theorem rsa_processClientKeyExchange_error_counterexample:
  "2 \<le> length [0 :: byte, 0] \<and> be16 ([0, 0] ! 0) ([0, 0] ! 1) = length [0 :: byte, 0] - 2
   \<and> rsaKeyAgreement_processClientKeyExchange toyDecrypt
        (zero_rsaKeyAgreement\<lparr>version := 0x0303\<rparr>)
        \<lparr>rand = [], KexConfig = [], InsecureSkipVerify = False, curvePreferences = []\<rparr>
        \<lparr>PrivateKey = rsa_PrivateKey \<lparr>N = 187, E = 3, rsaPrivateKey.D = 107\<rparr>\<rparr>
        \<lparr>ciphertext = [0, 0]\<rparr> = Inl EOF
   \<and> 2 \<le> length ([0, 1, 5] :: bytes) \<and> be16 ([0, 1, 5] ! 0) ([0, 1, 5] ! 1) = length ([0, 1, 5] :: bytes) - 2
   \<and> rsaKeyAgreement_processClientKeyExchange toyDecrypt
        (zero_rsaKeyAgreement\<lparr>version := 0x0303\<rparr>)
        \<lparr>rand = replicate 46 7, KexConfig = [], InsecureSkipVerify = False, curvePreferences = []\<rparr>
        \<lparr>PrivateKey = rsa_PrivateKey \<lparr>N = 187, E = 3, rsaPrivateKey.D = 107\<rparr>\<rparr>
        \<lparr>ciphertext = [0, 1, 5]\<rparr> = Inl (libError ''crypto/rsa: decryption error'')"
  by (simp add: rsaKeyAgreement_processClientKeyExchange_def ReadFull_def toyDecrypt_def
      zero_rsaKeyAgreement_def VersionSSL30_def be16_eq)

subsection \<open>The options of KexConfig\<close>

lemma curveForCurveID_payload:
  "curveForCurveID Curve25519 = Some X25519"
  "curveForCurveID CurveP256r1 = Some P256r1"
  "curveForCurveID CurveP224r1 = Some P224r1"
  by (simp_all add: curveForCurveID_def curve_consts)

lemma kexOption_None_iff: "kexOption t lka = None \<longleftrightarrow> t \<notin> set ecdheKexOptions"
  by (cases lka) (simp add: kexOption_def ecdheKexOptions_def)

lemma kexLoop_panic:
  "t \<in> set ts \<Longrightarrow> t \<notin> set ecdheKexOptions \<Longrightarrow> fst (kexLoop ts lka) = Some panicKexOption"
proof (induction ts arbitrary: lka)
  case Nil
  then show ?case by simp
next
  case (Cons a ts)
  show ?case
  proof (cases "kexOption a lka")
    case None
    then show ?thesis by simp
  next
    case (Some lka')
    then have "a \<in> set ecdheKexOptions" using kexOption_None_iff [of a lka] by auto
    with Cons.prems have "t \<in> set ts" by auto
    with Cons.IH Cons.prems(2) Some show ?thesis by simp
  qed
qed

lemma generateClientKeyExchange_panic:
  assumes "t \<in> set (Split (KexConfig config) (CHR '',''))" "t \<notin> set ecdheKexOptions"
  shows "fst (ecdheKeyAgreement_generateClientKeyExchange GenerateKey GenerateSharedSecret
                Marshal ka config clientHello cert) =
         Inl (if curve ka = None then errMissingSKX else panicKexOption)"
proof -
  have "fst (kexLoop (Split (KexConfig config) (CHR '','')) (kexLocals0, ka))
          = Some panicKexOption"
    using assms by (rule kexLoop_panic)
  then show ?thesis
    by (cases "kexLoop (Split (KexConfig config) (CHR '','')) (kexLocals0, ka)")
       (auto simp add: ecdheKeyAgreement_generateClientKeyExchange_def split: option.splits)
qed

lemma kexOption_payload:
  "kexOption t (l, ka) =
     (if t = ''COMPRESS'' then Some (l\<lparr>compress := True\<rparr>, ka)
      else case staticPayload t of
             Some (c, xv, yo) \<Rightarrow>
               Some (l\<lparr>mx := Some xv, my := (case yo of None \<Rightarrow> my l | Some yv \<Rightarrow> Some yv),
                       staticKex := True\<rparr>, ka\<lparr>curveID := c\<rparr>)
           | None \<Rightarrow> if t = [] then Some (l, ka) else None)"
  by (simp add: kexOption_def staticPayload_def)

lemma staticPayload_COMPRESS: "staticPayload ''COMPRESS'' = None"
  by (simp add: staticPayload_def)

lemma staticPayload_curve:
  "staticPayload t = Some (c, xv, yo) \<Longrightarrow> curveForCurveID c \<noteq> None"
  by (auto simp: staticPayload_def curveForCurveID_payload split: if_splits)


lemma kexOption_agree:
  assumes "kexOption t lka = Some lka'" and "kexAgree pl yv cmp ka0 lka"
  shows "kexAgree (case staticPayload t of None \<Rightarrow> pl | Some v \<Rightarrow> Some v)
           (case staticPayload t of
              None \<Rightarrow> yv
            | Some (c, xv, yo) \<Rightarrow> (case yo of None \<Rightarrow> yv | Some y \<Rightarrow> Some y))
           (cmp \<or> t = ''COMPRESS'') ka0 lka'"
proof (cases lka)
  case (Pair l ka)
  show ?thesis
  proof (cases "t = ''COMPRESS''")
    case True
    with assms Pair show ?thesis
      by (auto simp: kexOption_payload staticPayload_COMPRESS kexAgree_def split: option.splits)
  next
    case False
    show ?thesis
    proof (cases "staticPayload t")
      case None
      with assms Pair False show ?thesis
        by (auto simp: kexOption_payload kexAgree_def split: option.splits if_splits)
    next
      case (Some v)
      obtain c xv yo where v: "v = (c, xv, yo)" by (cases v)
      from assms Pair False Some v show ?thesis
        by (cases pl; cases yo) (auto simp: kexOption_payload kexAgree_def)
    qed
  qed
qed

lemma kexLoop_agree:
  "set ts \<subseteq> set ecdheKexOptions \<Longrightarrow> kexAgree pl yv cmp ka0 lka \<Longrightarrow>
   \<exists>lka'. kexLoop ts lka = (None, lka')
     \<and> kexAgree (lastPayload pl ts) (lastY yv ts) (cmp \<or> ''COMPRESS'' \<in> set ts) ka0 lka'"
proof (induction ts arbitrary: pl yv cmp lka)
  case Nil
  then show ?case by (simp add: lastPayload_def lastY_def)
next
  case (Cons t ts)
  from Cons.prems(1) obtain lka1 where s: "kexOption t lka = Some lka1"
    using kexOption_None_iff [of t lka] by auto
  note a = kexOption_agree [OF s Cons.prems(2)]
  from Cons.prems(1) have "set ts \<subseteq> set ecdheKexOptions" by simp
  from Cons.IH [OF this a] obtain lka' where
    l: "kexLoop ts lka1 = (None, lka')"
    and k: "kexAgree (lastPayload (case staticPayload t of None \<Rightarrow> pl | Some v \<Rightarrow> Some v) ts)
              (lastY (case staticPayload t of
                        None \<Rightarrow> yv
                      | Some (c, xv, yo) \<Rightarrow> (case yo of None \<Rightarrow> yv | Some y \<Rightarrow> Some y)) ts)
              ((cmp \<or> t = ''COMPRESS'') \<or> ''COMPRESS'' \<in> set ts) ka0 lka'"
    by blast
  have c: "((cmp \<or> t = ''COMPRESS'') \<or> ''COMPRESS'' \<in> set ts)
             = (cmp \<or> ''COMPRESS'' \<in> set (t # ts))"
    by auto
  from l s k show ?case
    unfolding c by (simp add: lastPayload_def lastY_def)
qed

lemma kexAgree_init: "kexAgree None None False ka (kexLocals0, ka)"
  by (simp add: kexAgree_def kexLocals0_def)

lemma lastPayload_curve:
  "lastPayload pl ts = Some (c, xv, yo) \<Longrightarrow>
   (\<And>c xv yo. pl = Some (c, xv, yo) \<Longrightarrow> curveForCurveID c \<noteq> None) \<Longrightarrow>
   curveForCurveID c \<noteq> None"
proof (induction ts arbitrary: pl)
  case Nil
  then show ?case by (simp add: lastPayload_def)
next
  case (Cons t ts)
  show ?case
  proof (rule Cons.IH)
    show "lastPayload (case staticPayload t of None \<Rightarrow> pl | Some v \<Rightarrow> Some v) ts
            = Some (c, xv, yo)"
      using Cons.prems(1) by (simp add: lastPayload_def)
  next
    fix c' xv' yo'
    assume "(case staticPayload t of None \<Rightarrow> pl | Some v \<Rightarrow> Some v) = Some (c', xv', yo')"
    then show "curveForCurveID c' \<noteq> None"
      using Cons.prems(2) staticPayload_curve by (auto split: option.splits)
  qed
qed

lemma generateClientKeyExchange_payload:
  assumes c: "curve ka = Some c0"
    and r: "set (Split (KexConfig config) (CHR '','')) \<subseteq> set ecdheKexOptions"
    and p: "lastPayload None (Split (KexConfig config) (CHR '','')) = Some (cid, xv, yo)"
  shows "\<exists>cv. curveForCurveID cid = Some cv
     \<and> ecdheKeyAgreement_generateClientKeyExchange GenerateKey GenerateSharedSecret
          Marshal ka config clientHello cert =
        (let pub = \<lparr>X = Some xv, Y = lastY None (Split (KexConfig config) (CHR '',''))\<rparr>;
             serialized = Marshal cv pub
                            (''COMPRESS'' \<in> set (Split (KexConfig config) (CHR '','')))
         in (Inr (Bytes xv, \<lparr>ciphertext = of_nat (length serialized) # serialized\<rparr>),
             ka\<lparr>curveID := cid, curve := Some cv, ecdheKeyAgreement.privateKey := None,
                clientPublicKey := Some pub\<rparr>))"
proof -
  from lastPayload_curve [OF p] obtain cv where cv: "curveForCurveID cid = Some cv" by auto
  from kexLoop_agree [OF r kexAgree_init, of ka] p obtain l ka1 where
    l: "kexLoop (Split (KexConfig config) (CHR '','')) (kexLocals0, ka) = (None, l, ka1)"
    and k: "kexAgree (Some (cid, xv, yo)) (lastY None (Split (KexConfig config) (CHR '','')))
              (''COMPRESS'' \<in> set (Split (KexConfig config) (CHR '',''))) ka (l, ka1)"
    by auto
  from k have f: "compress l = (''COMPRESS'' \<in> set (Split (KexConfig config) (CHR '','')))"
    "my l = lastY None (Split (KexConfig config) (CHR '',''))"
    "staticKex l" "mx l = Some xv" "ka1 = ka\<lparr>curveID := cid\<rparr>"
    by (simp_all add: kexAgree_def)
  show ?thesis
    using c cv l f
    by (simp add: ecdheKeyAgreement_generateClientKeyExchange_def Let_def)
qed

lemma Split_S2: "Split ''X25519_INVALID_S2'' (CHR '','') = [''X25519_INVALID_S2'']"
  by simp

lemma lastPayload_S2: "lastPayload None [''X25519_INVALID_S2''] = Some (Curve25519, 0, None)"
  by (simp add: lastPayload_def staticPayload_def)

lemma lastY_S2: "lastY None [''X25519_INVALID_S2''] = None"
  by (simp add: lastY_def staticPayload_def)


text \<open>
  C2 (amended): for \<^verbatim>\<open>ecdheKeyAgreement.generateClientKeyExchange\<close> in a state that holds a
  curve, with a \<^verbatim>\<open>KexConfig\<close> whose options are all recognised and one of which is a payload
  option, the result is fixed by the options alone: the pre-master secret is \<^verbatim>\<open>Bytes\<close> of
  the X of the last payload option (the big-endian bytes with no leading zero byte), the
  private key is nil, the client's public key is that X with the last Y that an option
  set, the curve is the one of the payload, and the message is the length byte followed
  by the serialisation of the public key, compressed when \<^verbatim>\<open>COMPRESS\<close> is among the options.
  The key generator, the shared-secret computation and the random reader have no part in
  it: replacing them leaves the result as it is. For \<^verbatim>\<open>X25519_INVALID_S2\<close> the client sends
  \<open>X = 0\<close> on curve X25519 and the pre-master secret is the empty byte string, since
  \<^verbatim>\<open>Bytes\<close> of zero is empty; it is not the one byte \<open>0x00\<close>.
\<close>

theorem ecdhe_generateClientKeyExchange_static_payload:
  "(curve ka = Some crv
      \<and> set (Split (KexConfig config) (CHR '','')) \<subseteq> set ecdheKexOptions
      \<and> lastPayload None (Split (KexConfig config) (CHR '','')) = Some (cid, xv, yo) \<longrightarrow>
    (\<exists>cv. curveForCurveID cid = Some cv
       \<and> ecdheKeyAgreement_generateClientKeyExchange GenerateKey GenerateSharedSecret
            Marshal ka config clientHello cert =
          (let pub = \<lparr>X = Some xv, Y = lastY None (Split (KexConfig config) (CHR '',''))\<rparr>;
               serialized = Marshal cv pub
                              (''COMPRESS'' \<in> set (Split (KexConfig config) (CHR '','')))
           in (Inr (Bytes xv, \<lparr>ciphertext = of_nat (length serialized) # serialized\<rparr>),
               ka\<lparr>curveID := cid, curve := Some cv, ecdheKeyAgreement.privateKey := None,
                  clientPublicKey := Some pub\<rparr>)))
     \<and> ecdheKeyAgreement_generateClientKeyExchange GenerateKey GenerateSharedSecret
          Marshal ka config clientHello cert =
       ecdheKeyAgreement_generateClientKeyExchange GenerateKey' GenerateSharedSecret'
          Marshal ka (config\<lparr>rand := r'\<rparr>) clientHello cert)
   \<and> (curve ka = Some crv \<and> KexConfig config = ''X25519_INVALID_S2'' \<longrightarrow>
        ecdheKeyAgreement_generateClientKeyExchange GenerateKey GenerateSharedSecret
          Marshal ka config clientHello cert =
        (Inr ([], \<lparr>ciphertext =
                     of_nat (length (Marshal X25519 \<lparr>X = Some 0, Y = None\<rparr> False))
                       # Marshal X25519 \<lparr>X = Some 0, Y = None\<rparr> False\<rparr>),
         ka\<lparr>curveID := Curve25519, curve := Some X25519,
            ecdheKeyAgreement.privateKey := None,
            clientPublicKey := Some \<lparr>X = Some 0, Y = None\<rparr>\<rparr>))"
proof -
  have A: "(\<exists>cv. curveForCurveID cid = Some cv
       \<and> ecdheKeyAgreement_generateClientKeyExchange GenerateKey GenerateSharedSecret
            Marshal ka config clientHello cert =
          (let pub = \<lparr>X = Some xv, Y = lastY None (Split (KexConfig config) (CHR '',''))\<rparr>;
               serialized = Marshal cv pub
                              (''COMPRESS'' \<in> set (Split (KexConfig config) (CHR '','')))
           in (Inr (Bytes xv, \<lparr>ciphertext = of_nat (length serialized) # serialized\<rparr>),
               ka\<lparr>curveID := cid, curve := Some cv, ecdheKeyAgreement.privateKey := None,
                  clientPublicKey := Some pub\<rparr>)))
     \<and> ecdheKeyAgreement_generateClientKeyExchange GenerateKey GenerateSharedSecret
          Marshal ka config clientHello cert =
       ecdheKeyAgreement_generateClientKeyExchange GenerateKey' GenerateSharedSecret'
          Marshal ka (config\<lparr>rand := r'\<rparr>) clientHello cert"
    if c: "curve ka = Some crv"
      and r: "set (Split (KexConfig config) (CHR '','')) \<subseteq> set ecdheKexOptions"
      and p: "lastPayload None (Split (KexConfig config) (CHR '','')) = Some (cid, xv, yo)"
  proof -
    have r': "set (Split (KexConfig (config\<lparr>rand := r'\<rparr>)) (CHR '','')) \<subseteq> set ecdheKexOptions"
      using r by simp
    have p': "lastPayload None (Split (KexConfig (config\<lparr>rand := r'\<rparr>)) (CHR '',''))
                = Some (cid, xv, yo)"
      using p by simp
    from generateClientKeyExchange_payload [OF c r p, of GenerateKey GenerateSharedSecret
        Marshal clientHello cert]
      generateClientKeyExchange_payload [OF c r' p', of GenerateKey' GenerateSharedSecret'
        Marshal clientHello cert]
    show ?thesis by auto
  qed
  have B: "ecdheKeyAgreement_generateClientKeyExchange GenerateKey GenerateSharedSecret
          Marshal ka config clientHello cert =
        (Inr ([], \<lparr>ciphertext =
                     of_nat (length (Marshal X25519 \<lparr>X = Some 0, Y = None\<rparr> False))
                       # Marshal X25519 \<lparr>X = Some 0, Y = None\<rparr> False\<rparr>),
         ka\<lparr>curveID := Curve25519, curve := Some X25519,
            ecdheKeyAgreement.privateKey := None,
            clientPublicKey := Some \<lparr>X = Some 0, Y = None\<rparr>\<rparr>)"
    if c: "curve ka = Some crv" and k: "KexConfig config = ''X25519_INVALID_S2''"
  proof -
    have r: "set (Split (KexConfig config) (CHR '','')) \<subseteq> set ecdheKexOptions"
      unfolding k Split_S2 by (simp add: ecdheKexOptions_def)
    have p: "lastPayload None (Split (KexConfig config) (CHR '',''))
               = Some (Curve25519, 0, None)"
      unfolding k Split_S2 by (rule lastPayload_S2)
    from generateClientKeyExchange_payload [OF c r p, of GenerateKey GenerateSharedSecret
        Marshal clientHello cert]
    show ?thesis
      unfolding k Split_S2 lastY_S2
      by (simp add: curveForCurveID_payload Bytes_def Let_def)
  qed
  show ?thesis using A B by blast
qed


theorem ecdhe_generateClientKeyExchange_static_payload_witness:
  "curve (zero_ecdheKeyAgreement\<lparr>curve := Some P256r1\<rparr>) = Some P256r1
   \<and> set (Split (KexConfig \<lparr>rand = [9], KexConfig = ''X25519_INVALID_S4,COMPRESS'',
                            InsecureSkipVerify = False, curvePreferences = []\<rparr>) (CHR '',''))
         \<subseteq> set ecdheKexOptions
   \<and> lastPayload None (Split (KexConfig \<lparr>rand = [9], KexConfig = ''X25519_INVALID_S4,COMPRESS'',
                            InsecureSkipVerify = False, curvePreferences = []\<rparr>) (CHR '',''))
         = Some (Curve25519, 1, None)
   \<and> ecdheKeyAgreement_generateClientKeyExchange toyGenerateKey toyGenerateSharedSecret toyMarshal
        (zero_ecdheKeyAgreement\<lparr>curve := Some P256r1\<rparr>)
        \<lparr>rand = [9], KexConfig = ''X25519_INVALID_S4,COMPRESS'', InsecureSkipVerify = False,
         curvePreferences = []\<rparr>
        \<lparr>vers = 0x0303, random = [], supportedCurves = [], signatureAndHashes = []\<rparr>
        \<lparr>PublicKey = ecdsa_PublicKey 1 2\<rparr>
      = (Inr ([1], \<lparr>ciphertext = [2, 2, 1]\<rparr>),
         zero_ecdheKeyAgreement\<lparr>curveID := Curve25519, curve := Some X25519,
           ecdheKeyAgreement.privateKey := None,
           clientPublicKey := Some \<lparr>X = Some 1, Y = None\<rparr>\<rparr>)
   \<and> ecdheKeyAgreement_generateClientKeyExchange toyGenerateKey toyGenerateSharedSecret toyMarshal
        (zero_ecdheKeyAgreement\<lparr>curve := Some P256r1\<rparr>)
        \<lparr>rand = [9], KexConfig = ''X25519_INVALID_S4,COMPRESS'', InsecureSkipVerify = False,
         curvePreferences = []\<rparr>
        \<lparr>vers = 0x0303, random = [], supportedCurves = [], signatureAndHashes = []\<rparr>
        \<lparr>PublicKey = ecdsa_PublicKey 1 2\<rparr>
      = ecdheKeyAgreement_generateClientKeyExchange (\<lambda>c r. Inl EOF) (\<lambda>c k q. Inl EOF) toyMarshal
        (zero_ecdheKeyAgreement\<lparr>curve := Some P256r1\<rparr>)
        (\<lparr>rand = [9], KexConfig = ''X25519_INVALID_S4,COMPRESS'', InsecureSkipVerify = False,
          curvePreferences = []\<rparr>\<lparr>rand := []\<rparr>)
        \<lparr>vers = 0x0303, random = [], supportedCurves = [], signatureAndHashes = []\<rparr>
        \<lparr>PublicKey = ecdsa_PublicKey 1 2\<rparr>
   \<and> KexConfig \<lparr>rand = [9], KexConfig = ''X25519_INVALID_S2'', InsecureSkipVerify = False,
                 curvePreferences = []\<rparr> = ''X25519_INVALID_S2''
   \<and> ecdheKeyAgreement_generateClientKeyExchange toyGenerateKey toyGenerateSharedSecret toyMarshal
        (zero_ecdheKeyAgreement\<lparr>curve := Some P256r1\<rparr>)
        \<lparr>rand = [9], KexConfig = ''X25519_INVALID_S2'', InsecureSkipVerify = False,
         curvePreferences = []\<rparr>
        \<lparr>vers = 0x0303, random = [], supportedCurves = [], signatureAndHashes = []\<rparr>
        \<lparr>PublicKey = ecdsa_PublicKey 1 2\<rparr>
      = (Inr ([], \<lparr>ciphertext = [1, 4]\<rparr>),
         zero_ecdheKeyAgreement\<lparr>curveID := Curve25519, curve := Some X25519,
           ecdheKeyAgreement.privateKey := None,
           clientPublicKey := Some \<lparr>X = Some 0, Y = None\<rparr>\<rparr>)"
  using ecdhe_generateClientKeyExchange_static_payload
    [where GenerateKey = toyGenerateKey and GenerateSharedSecret = toyGenerateSharedSecret
       and Marshal = toyMarshal and ka = "zero_ecdheKeyAgreement\<lparr>curve := Some P256r1\<rparr>"
       and crv = P256r1 and cid = Curve25519 and xv = 1 and yo = None
       and config = "\<lparr>rand = [9], KexConfig = ''X25519_INVALID_S4,COMPRESS'',
                      InsecureSkipVerify = False, curvePreferences = []\<rparr>"
       and clientHello = "\<lparr>vers = 0x0303, random = [], supportedCurves = [],
                           signatureAndHashes = []\<rparr>"
       and cert = "\<lparr>PublicKey = ecdsa_PublicKey 1 2\<rparr>"
       and GenerateKey' = "\<lambda>c r. Inl EOF" and GenerateSharedSecret' = "\<lambda>c k q. Inl EOF"
       and r' = "[]"]
    ecdhe_generateClientKeyExchange_static_payload
    [where GenerateKey = toyGenerateKey and GenerateSharedSecret = toyGenerateSharedSecret
       and Marshal = toyMarshal and ka = "zero_ecdheKeyAgreement\<lparr>curve := Some P256r1\<rparr>"
       and crv = P256r1
       and config = "\<lparr>rand = [9], KexConfig = ''X25519_INVALID_S2'',
                      InsecureSkipVerify = False, curvePreferences = []\<rparr>"
       and clientHello = "\<lparr>vers = 0x0303, random = [], supportedCurves = [],
                           signatureAndHashes = []\<rparr>"
       and cert = "\<lparr>PublicKey = ecdsa_PublicKey 1 2\<rparr>"]
  by (simp add: zero_ecdheKeyAgreement_def ecdheKexOptions_def lastPayload_def lastY_def
      staticPayload_def toyMarshal_def curveForCurveID_payload Bytes_def natBytes_one Let_def
      ecdheKeyAgreement_generateClientKeyExchange_def kexOption_def kexLocals0_def)

text \<open>
  The pre-master secret of \<^verbatim>\<open>X25519_INVALID_S2\<close> is not the one byte \<open>0x00\<close>: \<^verbatim>\<open>Bytes\<close> of
  zero is the empty slice.
\<close>

theorem ecdhe_generateClientKeyExchange_S2_counterexample:
  "fst (ecdheKeyAgreement_generateClientKeyExchange toyGenerateKey toyGenerateSharedSecret
          toyMarshal (zero_ecdheKeyAgreement\<lparr>curve := Some X25519\<rparr>)
          \<lparr>rand = [], KexConfig = ''X25519_INVALID_S2'', InsecureSkipVerify = False,
           curvePreferences = []\<rparr>
          \<lparr>vers = 0x0303, random = [], supportedCurves = [], signatureAndHashes = []\<rparr>
          \<lparr>PublicKey = ecdsa_PublicKey 1 2\<rparr>)
     = Inr ([], \<lparr>ciphertext = [1, 4]\<rparr>)
   \<and> ([] :: bytes) \<noteq> [0x00]"
  by (simp add: ecdheKeyAgreement_generateClientKeyExchange_def kexOption_def kexLocals0_def
      zero_ecdheKeyAgreement_def toyMarshal_def curveForCurveID_payload Bytes_def Let_def)

lemma kexSwitch_default:
  "kexConfig \<notin> set dheKexOptions \<Longrightarrow>
   kexSwitch randInt kexConfig r pv gv yv =
     (case randInt r pv of
        (Inl err, r') \<Rightarrow> Some (Inl nilDeref)
      | (Inr xv, r') \<Rightarrow>
          (case Exp yv xv pv of
             None \<Rightarrow> Some (Inl nilDeref)
           | Some pm \<Rightarrow>
               (case Exp gv xv pv of
                  None \<Rightarrow> Some (Inl nilDeref)
                | Some y \<Rightarrow> Some (Inr (None, y, xv, Bytes pm)))))"
  by (simp add: kexSwitch_def dheKexOptions_def)

lemma kexSwitch_unknown:
  "kexConfig \<notin> set dheKexOptions \<Longrightarrow> kexConfig' \<notin> set dheKexOptions \<Longrightarrow>
   kexSwitch randInt kexConfig r pv gv yv = kexSwitch randInt kexConfig' r pv gv yv"
  by (simp add: kexSwitch_default)

text \<open>
  C4 (amended): the ECDHE variant of \<^verbatim>\<open>generateClientKeyExchange\<close> fails on every
  \<^verbatim>\<open>KexConfig\<close> that has, between its commas, an option its \<^verbatim>\<open>switch\<close> has no case for: it
  panics with "unrecognized tls-kex-config option" (or, when no curve is stored, returns
  the missing-ServerKeyExchange error before it reads the options). The DHE variant fails
  on no value of \<^verbatim>\<open>KexConfig\<close>: every value other than \<^verbatim>\<open>0\<close>, \<^verbatim>\<open>1\<close>, \<^verbatim>\<open>pm1\<close>, \<^verbatim>\<open>g3\<close>, \<^verbatim>\<open>g5\<close>
  and \<^verbatim>\<open>g7\<close> takes the \<^verbatim>\<open>default\<close> case, so the result is the one of the empty \<^verbatim>\<open>KexConfig\<close>,
  and when \<^verbatim>\<open>rand.Int\<close> returns an exponent \<open>x \<ge> 0\<close> and \<open>p\<close> is not zero it is the ordinary
  exchange: the pre-master secret \<open>yTheirs ^ x mod |p|\<close>, the message carrying
  \<open>g ^ x mod |p|\<close> behind its 16-bit length, and both stored in the state.
\<close>

theorem generateClientKeyExchange_unknown_option:
  "(t \<in> set (Split (KexConfig config) (CHR '','')) \<and> t \<notin> set ecdheKexOptions \<longrightarrow>
      fst (ecdheKeyAgreement_generateClientKeyExchange GenerateKey GenerateSharedSecret
             Marshal eka config clientHello cert)
        = Inl (if curve eka = None then errMissingSKX else panicKexOption))
   \<and> (KexConfig config \<notin> set dheKexOptions \<longrightarrow>
        dheKeyAgreement_generateClientKeyExchange randInt dka config clientHello cert
          = dheKeyAgreement_generateClientKeyExchange randInt dka (config\<lparr>KexConfig := []\<rparr>)
              clientHello cert)
   \<and> (KexConfig config \<notin> set dheKexOptions
        \<and> p dka = Some pv \<and> g dka = Some gv \<and> yTheirs dka = Some yv \<and> pv \<noteq> 0
        \<and> randInt (rand config) pv = (Inr xv, r') \<and> 0 \<le> xv \<longrightarrow>
        dheKeyAgreement_generateClientKeyExchange randInt dka config clientHello cert
          = Some (Inr (Bytes (yv ^ nat xv mod \<bar>pv\<bar>),
                       \<lparr>ciphertext = put16 (length (Bytes (gv ^ nat xv mod \<bar>pv\<bar>)))
                                       @ Bytes (gv ^ nat xv mod \<bar>pv\<bar>)\<rparr>),
                  dka\<lparr>yOurs := Some (gv ^ nat xv mod \<bar>pv\<bar>), xOurs := Some xv,
                      yClient := Some (gv ^ nat xv mod \<bar>pv\<bar>)\<rparr>))"
proof -
  have A: "fst (ecdheKeyAgreement_generateClientKeyExchange GenerateKey GenerateSharedSecret
             Marshal eka config clientHello cert)
        = Inl (if curve eka = None then errMissingSKX else panicKexOption)"
    if "t \<in> set (Split (KexConfig config) (CHR '',''))" "t \<notin> set ecdheKexOptions"
    using that by (rule generateClientKeyExchange_panic)
  have e: "[] \<notin> set dheKexOptions" by (simp add: dheKexOptions_def)
  have B: "dheKeyAgreement_generateClientKeyExchange randInt dka config clientHello cert
          = dheKeyAgreement_generateClientKeyExchange randInt dka (config\<lparr>KexConfig := []\<rparr>)
              clientHello cert"
    if k: "KexConfig config \<notin> set dheKexOptions"
    by (cases "p dka"; cases "g dka"; cases "yTheirs dka")
       (simp_all add: dheKeyAgreement_generateClientKeyExchange_def
          kexSwitch_unknown [OF k e])
  have C: "dheKeyAgreement_generateClientKeyExchange randInt dka config clientHello cert
          = Some (Inr (Bytes (yv ^ nat xv mod \<bar>pv\<bar>),
                       \<lparr>ciphertext = put16 (length (Bytes (gv ^ nat xv mod \<bar>pv\<bar>)))
                                       @ Bytes (gv ^ nat xv mod \<bar>pv\<bar>)\<rparr>),
                  dka\<lparr>yOurs := Some (gv ^ nat xv mod \<bar>pv\<bar>), xOurs := Some xv,
                      yClient := Some (gv ^ nat xv mod \<bar>pv\<bar>)\<rparr>)"
    if k: "KexConfig config \<notin> set dheKexOptions"
      and s: "p dka = Some pv" "g dka = Some gv" "yTheirs dka = Some yv"
      and n: "pv \<noteq> 0" and r: "randInt (rand config) pv = (Inr xv, r')" and x: "0 \<le> xv"
    using s r
    by (simp add: dheKeyAgreement_generateClientKeyExchange_def kexSwitch_default [OF k]
        Exp_nonneg [OF x n] Let_def)
  show ?thesis using A B C by blast
qed

theorem generateClientKeyExchange_unknown_option_witness:
  "''bogus'' \<in> set (Split (KexConfig \<lparr>rand = [6], KexConfig = ''COMPRESS,bogus'',
                        InsecureSkipVerify = False, curvePreferences = []\<rparr>) (CHR '',''))
   \<and> ''bogus'' \<notin> set ecdheKexOptions
   \<and> fst (ecdheKeyAgreement_generateClientKeyExchange toyGenerateKey toyGenerateSharedSecret
             toyMarshal (zero_ecdheKeyAgreement\<lparr>curve := Some X25519\<rparr>)
             \<lparr>rand = [6], KexConfig = ''COMPRESS,bogus'', InsecureSkipVerify = False,
              curvePreferences = []\<rparr>
             \<lparr>vers = 0x0303, random = [], supportedCurves = [], signatureAndHashes = []\<rparr>
             \<lparr>PublicKey = ecdsa_PublicKey 1 2\<rparr>)
        = Inl (Panic ''unrecognized tls-kex-config option'')
   \<and> KexConfig \<lparr>rand = [6], KexConfig = ''COMPRESS,bogus'', InsecureSkipVerify = False,
                 curvePreferences = []\<rparr> \<notin> set dheKexOptions
   \<and> p (zero_dheKeyAgreement\<lparr>p := Some 23, g := Some 5, yTheirs := Some 8\<rparr>) = Some 23
   \<and> g (zero_dheKeyAgreement\<lparr>p := Some 23, g := Some 5, yTheirs := Some 8\<rparr>) = Some 5
   \<and> yTheirs (zero_dheKeyAgreement\<lparr>p := Some 23, g := Some 5, yTheirs := Some 8\<rparr>) = Some 8
   \<and> toyRandInt (rand \<lparr>rand = [6], KexConfig = ''COMPRESS,bogus'', InsecureSkipVerify = False,
                          curvePreferences = []\<rparr>) 23 = (Inr 6, [])
   \<and> dheKeyAgreement_generateClientKeyExchange toyRandInt
        (zero_dheKeyAgreement\<lparr>p := Some 23, g := Some 5, yTheirs := Some 8\<rparr>)
        \<lparr>rand = [6], KexConfig = ''COMPRESS,bogus'', InsecureSkipVerify = False,
         curvePreferences = []\<rparr>
        \<lparr>vers = 0x0303, random = [], supportedCurves = [], signatureAndHashes = []\<rparr>
        \<lparr>PublicKey = ecdsa_PublicKey 1 2\<rparr>
      = Some (Inr ([13], \<lparr>ciphertext = [0, 1, 8]\<rparr>),
              zero_dheKeyAgreement\<lparr>p := Some 23, g := Some 5, yTheirs := Some 8,
                yOurs := Some 8, xOurs := Some 6, yClient := Some 8\<rparr>)
   \<and> dheKeyAgreement_generateClientKeyExchange toyRandInt
        (zero_dheKeyAgreement\<lparr>p := Some 23, g := Some 5, yTheirs := Some 8\<rparr>)
        \<lparr>rand = [6], KexConfig = ''COMPRESS,bogus'', InsecureSkipVerify = False,
         curvePreferences = []\<rparr>
        \<lparr>vers = 0x0303, random = [], supportedCurves = [], signatureAndHashes = []\<rparr>
        \<lparr>PublicKey = ecdsa_PublicKey 1 2\<rparr>
      = dheKeyAgreement_generateClientKeyExchange toyRandInt
        (zero_dheKeyAgreement\<lparr>p := Some 23, g := Some 5, yTheirs := Some 8\<rparr>)
        (\<lparr>rand = [6], KexConfig = ''COMPRESS,bogus'', InsecureSkipVerify = False,
          curvePreferences = []\<rparr>\<lparr>KexConfig := []\<rparr>)
        \<lparr>vers = 0x0303, random = [], supportedCurves = [], signatureAndHashes = []\<rparr>
        \<lparr>PublicKey = ecdsa_PublicKey 1 2\<rparr>"
  using generateClientKeyExchange_unknown_option
    [where t = "''bogus''" and GenerateKey = toyGenerateKey
       and GenerateSharedSecret = toyGenerateSharedSecret and Marshal = toyMarshal
       and eka = "zero_ecdheKeyAgreement\<lparr>curve := Some X25519\<rparr>"
       and config = "\<lparr>rand = [6], KexConfig = ''COMPRESS,bogus'', InsecureSkipVerify = False,
                      curvePreferences = []\<rparr>"
       and clientHello = "\<lparr>vers = 0x0303, random = [], supportedCurves = [],
                           signatureAndHashes = []\<rparr>"
       and cert = "\<lparr>PublicKey = ecdsa_PublicKey 1 2\<rparr>"
       and randInt = toyRandInt
       and dka = "zero_dheKeyAgreement\<lparr>p := Some 23, g := Some 5, yTheirs := Some 8\<rparr>"
       and pv = 23 and gv = 5 and yv = 8 and xv = 6 and r' = "[]"]
  by (simp add: ecdheKexOptions_def dheKexOptions_def zero_ecdheKeyAgreement_def
      zero_dheKeyAgreement_def toyRandInt_def panicKexOption_def Bytes_def natBytes_small
      put16_def dheKeyAgreement_generateClientKeyExchange_def kexSwitch_def Exp_def Let_def)

text \<open>
  The DHE variant does not fail on an unknown value of \<^verbatim>\<open>KexConfig\<close>: it runs the ordinary
  exchange.
\<close>

theorem dhe_generateClientKeyExchange_unknown_counterexample:
  "''bogus'' \<notin> set dheKexOptions \<and> ''bogus'' \<notin> set ecdheKexOptions
   \<and> dheKeyAgreement_generateClientKeyExchange toyRandInt
        (zero_dheKeyAgreement\<lparr>p := Some 23, g := Some 5, yTheirs := Some 8\<rparr>)
        \<lparr>rand = [6], KexConfig = ''bogus'', InsecureSkipVerify = False, curvePreferences = []\<rparr>
        \<lparr>vers = 0x0303, random = [], supportedCurves = [], signatureAndHashes = []\<rparr>
        \<lparr>PublicKey = ecdsa_PublicKey 1 2\<rparr>
      = Some (Inr ([13], \<lparr>ciphertext = [0, 1, 8]\<rparr>),
              zero_dheKeyAgreement\<lparr>p := Some 23, g := Some 5, yTheirs := Some 8,
                yOurs := Some 8, xOurs := Some 6, yClient := Some 8\<rparr>)"
  by (simp add: dheKexOptions_def ecdheKexOptions_def
      dheKeyAgreement_generateClientKeyExchange_def kexSwitch_def toyRandInt_def Exp_def
      zero_dheKeyAgreement_def Bytes_def natBytes_small put16_def Let_def)

end
